theory Spec2Isabelle
  imports Main "HOL-Library.AList" "HOL-Library.Word"
begin

section \<open>Python values\<close>

text \<open>
  An exception is modelled by the text that \<open>str(e)\<close> yields for it: the program only
  ever formats a caught exception into a message.
\<close>

datatype exn = Exn (str_exn: string)

text \<open>
  Strings are byte lists holding the UTF-8 encoding of the Python string. The substrings
  the program searches for are ASCII, so replacing them bytewise agrees with replacing
  them on code points.

  A dictionary key is either a \<open>str\<close> (which \<open>str(key)\<close> returns unchanged) or any other
  hashable object, represented by the outcome of \<open>str(key)\<close>: its text, or the exception
  its \<open>__str__\<close> raises.
\<close>

datatype pykey = StrKey string | OtherKey "exn + string"

fun str_key :: "pykey \<Rightarrow> exn + string" where
  "str_key (StrKey s) = Inr s"
| "str_key (OtherKey r) = r"

text \<open>
  One Python object, as \<open>safe_json_serialize\<close> observes it. The children of a container are
  references of type \<open>'a\<close>; an object graph is a function \<open>'a \<Rightarrow> 'a pyobj\<close> from references
  to objects, so a container may hold a reference to itself. A float is kept as its
  IEEE-754 bit pattern. \<open>PObject r\<close> is an object of any other type, with \<open>r\<close> the outcome
  of \<open>str(obj)\<close>.
\<close>

datatype 'a pyobj =
    PNone
  | PBool bool
  | PInt int
  | PFloat "64 word"
  | PStr string
  | PList "'a list"
  | PTuple "'a list"
  | PDict "(pykey \<times> 'a) list"
  | PObject "exn + string"

text \<open>The values \<open>safe_json_serialize\<close> builds: what JSON can carry.\<close>

datatype json =
    JNull
  | JBool bool
  | JInt int
  | JFloat "64 word"
  | JStr string
  | JList "json list"
  | JDict "(string \<times> json) list"

section \<open>The result normalizer\<close>

text \<open>
  \<open>result[str(key)] = v\<close>: the right-hand side has been evaluated already, then \<open>str(key)\<close>
  is, and may raise. Storing under a key that is present replaces its value in place;
  a new key goes to the end.
\<close>

definition assign :: "pykey \<Rightarrow> json \<Rightarrow> (string \<times> json) list \<Rightarrow> exn + (string \<times> json) list" where
  "assign key v result =
     (case str_key key of
        Inl e \<Rightarrow> Inl e
      | Inr k \<Rightarrow> Inr (AList.update k v result))"

text \<open>
  The \<open>try\<close> statement in the loop over \<open>obj.items()\<close>; \<open>r\<close> is the outcome of the recursive
  call on the value. The handler stores a placeholder, under \<open>str(key)\<close> again, and nothing
  catches what the handler raises.
\<close>

definition try_store :: "pykey \<Rightarrow> exn + json \<Rightarrow> (string \<times> json) list \<Rightarrow> exn + (string \<times> json) list" where
  "try_store key r result =
     (case (case r of Inl e \<Rightarrow> Inl e | Inr v \<Rightarrow> assign key v result) of
        Inr result' \<Rightarrow> Inr result'
      | Inl e \<Rightarrow> assign key (JStr (''[Serialization Error: '' @ str_exn e @ '']'')) result)"

text \<open>
  The function itself, with the list comprehension and the loop over the items of a dict as
  two functions of their own. The recursion ends because every call on a child is one level
  deeper and a level above \<open>max_depth\<close> returns at once. The recursion limit of the
  interpreter is outside the model.
\<close>

function safe_json_serialize :: "('a \<Rightarrow> 'a pyobj) \<Rightarrow> 'a \<Rightarrow> int \<Rightarrow> int \<Rightarrow> exn + json"
  and serialize_items :: "('a \<Rightarrow> 'a pyobj) \<Rightarrow> 'a list \<Rightarrow> int \<Rightarrow> int \<Rightarrow> exn + json list"
  and serialize_entries ::
    "('a \<Rightarrow> 'a pyobj) \<Rightarrow> (pykey \<times> 'a) list \<Rightarrow> int \<Rightarrow> int \<Rightarrow> (string \<times> json) list
      \<Rightarrow> exn + (string \<times> json) list"
where
  "safe_json_serialize h obj max_depth current_depth =
     (if current_depth > max_depth then Inr (JStr ''[Max Depth Exceeded]'')
      else case h obj of
        PNone \<Rightarrow> Inr JNull
      | PBool b \<Rightarrow> Inr (JBool b)
      | PInt i \<Rightarrow> Inr (JInt i)
      | PFloat x \<Rightarrow> Inr (JFloat x)
      | PStr s \<Rightarrow> Inr (JStr s)
      | PList items \<Rightarrow> map_sum id JList (serialize_items h items max_depth current_depth)
      | PTuple items \<Rightarrow> map_sum id JList (serialize_items h items max_depth current_depth)
      | PDict entries \<Rightarrow>
          map_sum id JDict (serialize_entries h entries max_depth current_depth [])
      | PObject r \<Rightarrow>
          (case r of
             Inr text \<Rightarrow> Inr (JStr text)
           | Inl e \<Rightarrow> Inr (JStr ''[Unserializable Object]'')))"
| "serialize_items h [] max_depth current_depth = Inr []"
| "serialize_items h (item # items) max_depth current_depth =
     (case safe_json_serialize h item max_depth (current_depth + 1) of
        Inl e \<Rightarrow> Inl e
      | Inr v \<Rightarrow>
          (case serialize_items h items max_depth current_depth of
             Inl e \<Rightarrow> Inl e
           | Inr vs \<Rightarrow> Inr (v # vs)))"
| "serialize_entries h [] max_depth current_depth result = Inr result"
| "serialize_entries h ((key, val) # entries) max_depth current_depth result =
     (case try_store key (safe_json_serialize h val max_depth (current_depth + 1)) result of
        Inl e \<Rightarrow> Inl e
      | Inr result' \<Rightarrow> serialize_entries h entries max_depth current_depth result')"
  by pat_completeness auto
termination
  by (relation "inv_image (less_than <*lex*> less_than)
        (\<lambda>x. case x of
            Inl (h, obj, max_depth, current_depth) \<Rightarrow> (nat (max_depth + 1 - current_depth), 0)
          | Inr (Inl (h, items, max_depth, current_depth)) \<Rightarrow>
              (nat (max_depth - current_depth), Suc (length items))
          | Inr (Inr (h, entries, max_depth, current_depth, result)) \<Rightarrow>
              (nat (max_depth - current_depth), Suc (length entries)))")
     auto

declare safe_json_serialize.simps [simp del]

section \<open>Backend payloads\<close>

text \<open>
  The RPC client hands back what it decoded from the backend's JSON answer, so a payload
  is a \<^typ>\<open>json\<close> tree (\<open>JNull\<close> is Python's \<open>None\<close>). \<open>py_object\<close> is the object graph of
  such a tree: a reference is the subtree itself, and every key is a \<open>str\<close>.
\<close>

fun py_object :: "json \<Rightarrow> json pyobj" where
  "py_object JNull = PNone"
| "py_object (JBool b) = PBool b"
| "py_object (JInt i) = PInt i"
| "py_object (JFloat x) = PFloat x"
| "py_object (JStr s) = PStr s"
| "py_object (JList items) = PList items"
| "py_object (JDict entries) = PDict (map (\<lambda>(k, v). (StrKey k, v)) entries)"

fun type_name :: "json \<Rightarrow> string" where
  "type_name JNull = ''NoneType''"
| "type_name (JBool b) = ''bool''"
| "type_name (JInt i) = ''int''"
| "type_name (JFloat x) = ''float''"
| "type_name (JStr s) = ''str''"
| "type_name (JList items) = ''list''"
| "type_name (JDict entries) = ''dict''"

definition attribute_error :: "string \<Rightarrow> string \<Rightarrow> exn" where
  "attribute_error tname attr =
     Exn ([CHR 0x27] @ tname @ [CHR 0x27] @ '' object has no attribute '' @
          [CHR 0x27] @ attr @ [CHR 0x27])"

definition not_iterable :: "string \<Rightarrow> exn" where
  "not_iterable tname = Exn ([CHR 0x27] @ tname @ [CHR 0x27] @ '' object is not iterable'')"

text \<open>\<open>v.get(k, d)\<close>: only a dict has the method.\<close>

fun py_get :: "json \<Rightarrow> string \<Rightarrow> json \<Rightarrow> exn + json" where
  "py_get (JDict entries) k d = Inr (case map_of entries k of Some v \<Rightarrow> v | None \<Rightarrow> d)"
| "py_get v k d = Inl (attribute_error (type_name v) ''get'')"

text \<open>Truth value of a payload, as \<open>not v\<close> tests it.\<close>

fun py_truthy :: "json \<Rightarrow> bool" where
  "py_truthy JNull = False"
| "py_truthy (JBool b) = b"
| "py_truthy (JInt i) = (i \<noteq> 0)"
| "py_truthy (JFloat x) = (x \<noteq> 0 \<and> x \<noteq> 0x8000000000000000)"
| "py_truthy (JStr s) = (s \<noteq> [])"
| "py_truthy (JList items) = (items \<noteq> [])"
| "py_truthy (JDict entries) = (entries \<noteq> [])"

text \<open>
  Iterating a \<open>str\<close> yields its code points, each as a one-character string: in UTF-8 a
  code point is a lead byte and the continuation bytes (\<open>0x80\<close> to \<open>0xBF\<close>) after it.
\<close>

definition is_continuation :: "char \<Rightarrow> bool" where
  "is_continuation c = (128 \<le> (of_char c :: nat) \<and> (of_char c :: nat) < 192)"

function code_points :: "string \<Rightarrow> string list" where
  "code_points [] = []"
| "code_points (c # cs) =
     (c # takeWhile is_continuation cs) # code_points (dropWhile is_continuation cs)"
  by pat_completeness auto
termination
  by (relation "measure length") (auto simp: length_dropWhile_le less_Suc_eq_le)

text \<open>\<open>for p in v\<close>: the elements of a list, the characters of a string, the keys of a dict.\<close>

fun py_iter :: "json \<Rightarrow> exn + json list" where
  "py_iter (JList items) = Inr items"
| "py_iter (JStr s) = Inr (map JStr (code_points s))"
| "py_iter (JDict entries) = Inr (map (\<lambda>(k, v). JStr k) entries)"
| "py_iter v = Inl (not_iterable (type_name v))"

section \<open>Strings\<close>

text \<open>
  \<open>s.replace(old, new, count)\<close>: the occurrences of \<open>old\<close> are found from the left and do not
  overlap; a negative \<open>count\<close> (the default is \<open>-1\<close>) replaces all of them. An empty \<open>old\<close>
  matches before every character and at the end.
\<close>

function py_replace :: "string \<Rightarrow> string \<Rightarrow> string \<Rightarrow> int \<Rightarrow> string" where
  "py_replace s old new count =
     (if count = 0 then s
      else if old = [] then
        new @ (case s of [] \<Rightarrow> [] | c # cs \<Rightarrow> c # py_replace cs old new (count - 1))
      else if s = [] then []
      else if take (length old) s = old then
        new @ py_replace (drop (length old) s) old new (count - 1)
      else hd s # py_replace (tl s) old new count)"
  by pat_completeness auto
termination
  by (relation "measure (\<lambda>(s, old, new, count). length s)") auto

declare py_replace.simps [simp del]

definition normalize_phone :: "string \<Rightarrow> string" where
  "normalize_phone phone =
     py_replace (py_replace (py_replace (py_replace phone ''+90'' [] (- 1)) ''0'' [] 1)
                   '' '' [] (- 1)) ''-'' [] (- 1)"

section \<open>Messages\<close>

text \<open>The literals of the source, UTF-8 encoded.\<close>

definition msg_not_connected :: string where
  "msg_not_connected = ''FreeIPA sunucusuna ba'' @ [CHR 0xC4, CHR 0x9F] @ ''l''
      @ [CHR 0xC4, CHR 0xB1] @ '' de'' @ [CHR 0xC4, CHR 0x9F] @ ''il''"

definition msg_connected :: string where
  "msg_connected = ''FreeIPA sunucusuna ba'' @ [CHR 0xC5, CHR 0x9F] @ ''ar''
      @ [CHR 0xC4, CHR 0xB1] @ ''yla ba'' @ [CHR 0xC4, CHR 0x9F] @ ''land''
      @ [CHR 0xC4, CHR 0xB1] @ '': ''"

definition msg_connect_failed :: string where
  "msg_connect_failed = ''FreeIPA ba'' @ [CHR 0xC4, CHR 0x9F] @ ''lant'' @ [CHR 0xC4, CHR 0xB1]
      @ ''s'' @ [CHR 0xC4, CHR 0xB1] @ '' ba'' @ [CHR 0xC5, CHR 0x9F] @ ''ar''
      @ [CHR 0xC4, CHR 0xB1] @ ''s'' @ [CHR 0xC4, CHR 0xB1] @ ''z: ''"

definition msg_disconnected :: string where
  "msg_disconnected = ''FreeIPA ba'' @ [CHR 0xC4, CHR 0x9F] @ ''lant'' @ [CHR 0xC4, CHR 0xB1]
      @ ''s'' @ [CHR 0xC4, CHR 0xB1] @ '' kapat'' @ [CHR 0xC4, CHR 0xB1] @ ''ld''
      @ [CHR 0xC4, CHR 0xB1]"

definition msg_disconnect_failed :: string where
  "msg_disconnect_failed = ''FreeIPA ba'' @ [CHR 0xC4, CHR 0x9F] @ ''lant''
      @ [CHR 0xC4, CHR 0xB1] @ ''s'' @ [CHR 0xC4, CHR 0xB1] @ '' kapat'' @ [CHR 0xC4, CHR 0xB1]
      @ ''l'' @ [CHR 0xC4, CHR 0xB1] @ ''rken hata: ''"

definition msg_status_failed :: string where
  "msg_status_failed = ''FreeIPA ba'' @ [CHR 0xC4, CHR 0x9F] @ ''lant'' @ [CHR 0xC4, CHR 0xB1]
      @ ''s'' @ [CHR 0xC4, CHR 0xB1] @ '' kontrol edilirken hata: ''"

definition msg_user_details_failed :: string where
  "msg_user_details_failed = ''Kullan'' @ [CHR 0xC4, CHR 0xB1] @ ''c'' @ [CHR 0xC4, CHR 0xB1]
      @ '' detaylar'' @ [CHR 0xC4, CHR 0xB1] @ '' al'' @ [CHR 0xC4, CHR 0xB1] @ ''n''
      @ [CHR 0xC4, CHR 0xB1] @ ''rken hata: ''"

definition msg_phone_not_verified :: string where
  "msg_phone_not_verified = ''Telefon numaras'' @ [CHR 0xC4, CHR 0xB1] @ '' do''
      @ [CHR 0xC4, CHR 0x9F] @ ''rulanamad'' @ [CHR 0xC4, CHR 0xB1] @ '' veya sistemde kay''
      @ [CHR 0xC4, CHR 0xB1] @ ''tl'' @ [CHR 0xC4, CHR 0xB1] @ '' de'' @ [CHR 0xC4, CHR 0x9F]
      @ ''il.''"

definition msg_reset_new_password :: string where
  "msg_reset_new_password = [CHR 0xC5, CHR 0x9E] @ ''ifre ba'' @ [CHR 0xC5, CHR 0x9F] @ ''ar''
      @ [CHR 0xC4, CHR 0xB1] @ ''yla s'' @ [CHR 0xC4, CHR 0xB1] @ ''f'' @ [CHR 0xC4, CHR 0xB1]
      @ ''rland'' @ [CHR 0xC4, CHR 0xB1] @ '' ve yeni '' @ [CHR 0xC5, CHR 0x9F]
      @ ''ifre ayarland'' @ [CHR 0xC4, CHR 0xB1] @ ''.''"

definition msg_reset_temp_password :: string where
  "msg_reset_temp_password = [CHR 0xC5, CHR 0x9E] @ ''ifre ba'' @ [CHR 0xC5, CHR 0x9F] @ ''ar''
      @ [CHR 0xC4, CHR 0xB1] @ ''yla s'' @ [CHR 0xC4, CHR 0xB1] @ ''f'' @ [CHR 0xC4, CHR 0xB1]
      @ ''rland'' @ [CHR 0xC4, CHR 0xB1] @ ''. Yeni '' @ [CHR 0xC5, CHR 0x9F] @ ''ifre kullan''
      @ [CHR 0xC4, CHR 0xB1] @ ''c'' @ [CHR 0xC4, CHR 0xB1] @ ''ya iletildi.''"

definition msg_reset_failed :: string where
  "msg_reset_failed = ''Kullan'' @ [CHR 0xC4, CHR 0xB1] @ ''c'' @ [CHR 0xC4, CHR 0xB1] @ '' ''
      @ [CHR 0xC5, CHR 0x9F] @ ''ifresi resetlenirken hata: ''"

definition msg_user_list_failed :: string where
  "msg_user_list_failed = ''Kullan'' @ [CHR 0xC4, CHR 0xB1] @ ''c'' @ [CHR 0xC4, CHR 0xB1]
      @ '' listesi al'' @ [CHR 0xC4, CHR 0xB1] @ ''n'' @ [CHR 0xC4, CHR 0xB1] @ ''rken hata: ''"

definition msg_user_add_failed :: string where
  "msg_user_add_failed = ''Kullan'' @ [CHR 0xC4, CHR 0xB1] @ ''c'' @ [CHR 0xC4, CHR 0xB1]
      @ '' eklenirken hata: ''"

definition msg_user_modify_failed :: string where
  "msg_user_modify_failed = ''Kullan'' @ [CHR 0xC4, CHR 0xB1] @ ''c'' @ [CHR 0xC4, CHR 0xB1]
      @ '' g'' @ [CHR 0xC3, CHR 0xBC] @ ''ncellenirken hata: ''"

definition msg_group_list_failed :: string where
  "msg_group_list_failed = ''Grup listesi al'' @ [CHR 0xC4, CHR 0xB1] @ ''n''
      @ [CHR 0xC4, CHR 0xB1] @ ''rken hata: ''"

definition msg_group_details_failed :: string where
  "msg_group_details_failed = ''Grup detaylar'' @ [CHR 0xC4, CHR 0xB1] @ '' al''
      @ [CHR 0xC4, CHR 0xB1] @ ''n'' @ [CHR 0xC4, CHR 0xB1] @ ''rken hata: ''"

definition msg_group_add_failed :: string where
  "msg_group_add_failed = ''Grup eklenirken hata: ''"

definition msg_group_add_member_failed :: string where
  "msg_group_add_member_failed = ''Gruba '' @ [CHR 0xC3, CHR 0xBC] @ ''ye eklenirken hata: ''"

definition msg_group_remove_member_failed :: string where
  "msg_group_remove_member_failed = ''Gruptan '' @ [CHR 0xC3, CHR 0xBC] @ ''ye ''
      @ [CHR 0xC3, CHR 0xA7, CHR 0xC4, CHR 0xB1] @ ''kar'' @ [CHR 0xC4, CHR 0xB1] @ ''l''
      @ [CHR 0xC4, CHR 0xB1] @ ''rken hata: ''"

section \<open>The session and the backend\<close>

text \<open>
  A handle is the \<open>ClientMeta\<close> object: the endpoint and the certificate policy it was built
  with, and \<open>h_id\<close>, which tells two objects built with the same arguments apart. A handle
  is a plain object and counts as true in \<open>if freeipa_client\<close> and \<open>not freeipa_client\<close>.
\<close>

record handle =
  h_id :: nat
  h_server :: string
  h_verify_ssl :: bool

text \<open>What the program asks of the RPC client library: its constructor and its methods.\<close>

datatype call =
    ClientMeta string bool
  | Login handle string string
  | Logout handle
  | Ping handle
  | Change_password handle string string string
  | User_show handle string
  | User_find handle int
  | User_add handle string string string string string
  | User_mod handle string "(string \<times> json) list"
  | Group_find handle "string option" "string option" int
  | Group_show handle string
  | Group_add handle string string
  | Group_add_member handle string string
  | Group_remove_member handle string string

text \<open>
  The backend is outside the program: it answers a call with a payload or raises, and its
  answer may depend on every call made before. All theorems hold for every backend.
\<close>

type_synonym backend = "call list \<Rightarrow> call \<Rightarrow> exn + json"

text \<open>
  The two globals \<open>freeipa_client\<close> and \<open>freeipa_connected\<close>, the calls made so far, and the
  number of random characters drawn so far. Logging and \<open>print\<close> write to the console and
  change none of these; they are left out.
\<close>

record world =
  freeipa_client :: "handle option"
  freeipa_connected :: bool
  trace :: "call list"
  draws :: nat

definition initial_world :: world where
  "initial_world = \<lparr>freeipa_client = None, freeipa_connected = False, trace = [], draws = 0\<rparr>"

text \<open>The process configuration, read from the environment at startup.\<close>

record config =
  FREEIPA_SERVER :: string
  FREEIPA_USERNAME :: string
  FREEIPA_PASSWORD :: string
  FREEIPA_VERIFY_SSL :: bool

definition invoke :: "backend \<Rightarrow> world \<Rightarrow> call \<Rightarrow> (exn + json) \<times> world" where
  "invoke be w c = (be (trace w) c, w\<lparr>trace := trace w @ [c]\<rparr>)"

text \<open>
  \<open>ClientMeta(server, verify_ssl=verify_ssl)\<close>: a new object, unless the constructor raises.
  The position of the constructor call in the trace identifies the object.
\<close>

definition new_handle :: "world \<Rightarrow> string \<Rightarrow> bool \<Rightarrow> handle" where
  "new_handle w server verify_ssl =
     \<lparr>h_id = length (trace w), h_server = server, h_verify_ssl = verify_ssl\<rparr>"

definition construct :: "backend \<Rightarrow> world \<Rightarrow> string \<Rightarrow> bool \<Rightarrow> (exn + handle) \<times> world" where
  "construct be w server verify_ssl =
     (case invoke be w (ClientMeta server verify_ssl) of
        (Inl e, w1) \<Rightarrow> (Inl e, w1)
      | (Inr _, w1) \<Rightarrow> (Inr (new_handle w server verify_ssl), w1))"

text \<open>\<open>freeipa_client.meth(...)\<close>: without a handle the attribute lookup on \<open>None\<close> raises.\<close>

definition client_call ::
  "backend \<Rightarrow> world \<Rightarrow> string \<Rightarrow> (handle \<Rightarrow> call) \<Rightarrow> (exn + json) \<times> world" where
  "client_call be w meth mk =
     (case freeipa_client w of
        None \<Rightarrow> (Inl (attribute_error ''NoneType'' meth), w)
      | Some h \<Rightarrow> invoke be w (mk h))"

subsection \<open>Session manager\<close>

definition connect_freeipa :: "backend \<Rightarrow> config \<Rightarrow> world \<Rightarrow> bool \<times> world" where
  "connect_freeipa be cfg w =
     (case construct be w (FREEIPA_SERVER cfg) (FREEIPA_VERIFY_SSL cfg) of
        (Inl e, w1) \<Rightarrow> (False, w1\<lparr>freeipa_connected := False\<rparr>)
      | (Inr h, w1) \<Rightarrow>
          (case invoke be (w1\<lparr>freeipa_client := Some h\<rparr>)
                  (Login h (FREEIPA_USERNAME cfg) (FREEIPA_PASSWORD cfg)) of
             (Inl e, w2) \<Rightarrow> (False, w2\<lparr>freeipa_connected := False\<rparr>)
           | (Inr _, w2) \<Rightarrow> (True, w2\<lparr>freeipa_connected := True\<rparr>)))"

definition ensure_connection :: "backend \<Rightarrow> config \<Rightarrow> world \<Rightarrow> bool \<times> world" where
  "ensure_connection be cfg w =
     (if \<not> freeipa_connected w \<or> freeipa_client w = None then connect_freeipa be cfg w
      else case client_call be w ''ping'' Ping of
        (Inr _, w1) \<Rightarrow> (True, w1)
      | (Inl e, w1) \<Rightarrow> connect_freeipa be cfg w1)"

subsection \<open>Tools\<close>

text \<open>
  What a tool returns: a dict, its fields in order, or nothing at all (\<open>None\<close>) when the
  function body ends without a \<open>return\<close>.
\<close>

type_synonym outcome = "(string \<times> json) list option"

definition result_outcome :: "json \<Rightarrow> outcome" where
  "result_outcome v = Some [(''result'', v)]"

definition error_outcome :: "string \<Rightarrow> outcome" where
  "error_outcome m = Some [(''error'', JStr m)]"

definition freeipa_connect ::
  "backend \<Rightarrow> string \<Rightarrow> string \<Rightarrow> string \<Rightarrow> bool \<Rightarrow> world \<Rightarrow> outcome \<times> world" where
  "freeipa_connect be server username password verify_ssl w =
     (case construct be w server verify_ssl of
        (Inl e, w1) \<Rightarrow>
          (error_outcome (msg_connect_failed @ str_exn e), w1\<lparr>freeipa_connected := False\<rparr>)
      | (Inr h, w1) \<Rightarrow>
          (case invoke be (w1\<lparr>freeipa_client := Some h\<rparr>) (Login h username password) of
             (Inl e, w2) \<Rightarrow>
               (error_outcome (msg_connect_failed @ str_exn e), w2\<lparr>freeipa_connected := False\<rparr>)
           | (Inr _, w2) \<Rightarrow>
               (result_outcome (JStr (msg_connected @ server)), w2\<lparr>freeipa_connected := True\<rparr>)))"

definition freeipa_disconnect :: "backend \<Rightarrow> world \<Rightarrow> outcome \<times> world" where
  "freeipa_disconnect be w =
     (case (case freeipa_client w of
              None \<Rightarrow> (Inr JNull, w)
            | Some h \<Rightarrow> invoke be w (Logout h)) of
        (Inl e, w1) \<Rightarrow> (error_outcome (msg_disconnect_failed @ str_exn e), w1)
      | (Inr _, w1) \<Rightarrow>
          (result_outcome (JStr msg_disconnected),
           w1\<lparr>freeipa_client := None, freeipa_connected := False\<rparr>))"

definition freeipa_status :: "backend \<Rightarrow> world \<Rightarrow> outcome \<times> world" where
  "freeipa_status be w =
     (if \<not> freeipa_connected w then (error_outcome msg_not_connected, w)
      else case freeipa_client w of
        None \<Rightarrow> (None, w)
      | Some h \<Rightarrow>
          (case invoke be w (Ping h) of
             (Inl e, w1) \<Rightarrow>
               (error_outcome (msg_status_failed @ str_exn e), w1\<lparr>freeipa_connected := False\<rparr>)
           | (Inr result, w1) \<Rightarrow>
               (case safe_json_serialize py_object result 10 0 of
                  Inl e \<Rightarrow>
                    (error_outcome (msg_status_failed @ str_exn e),
                     w1\<lparr>freeipa_connected := False\<rparr>)
                | Inr v \<Rightarrow> (result_outcome v, w1))))"

text \<open>
  The end of a directory tool: inside its \<open>try\<close>,
  \<open>return {"result": safe_json_serialize(res.get("result", d))}\<close>, where \<open>r\<close> is
  the outcome of the backend call that binds \<open>res\<close>; any exception becomes the tool's
  error message.
\<close>

definition reply :: "string \<Rightarrow> json \<Rightarrow> exn + json \<Rightarrow> outcome" where
  "reply failed d r =
     (case (case r of
              Inl e \<Rightarrow> Inl e
            | Inr res \<Rightarrow>
                (case py_get res ''result'' d of
                   Inl e \<Rightarrow> Inl e
                 | Inr v \<Rightarrow> safe_json_serialize py_object v 10 0)) of
        Inl e \<Rightarrow> error_outcome (failed @ str_exn e)
      | Inr v \<Rightarrow> result_outcome v)"

definition change_password ::
  "backend \<Rightarrow> config \<Rightarrow> string \<Rightarrow> string \<Rightarrow> string \<Rightarrow> world \<Rightarrow> outcome \<times> world" where
  "change_password be cfg username new_password old_password w =
     (let (ok, w1) = ensure_connection be cfg w in
      if \<not> ok then (error_outcome msg_not_connected, w1)
      else
        let (r, w2) = client_call be w1 ''change_password''
                        (\<lambda>h. Change_password h username new_password old_password)
        in (reply msg_user_details_failed (JDict []) r, w2))"

subsection \<open>Credential reset\<close>

definition alphabet :: string where
  "alphabet = ''abcdefghijklmnopqrstuvwxyzABCDEFGHIJKLMNOPQRSTUVWXYZ0123456789''"

text \<open>
  \<open>secrets.choice\<close> is random: \<open>rng i\<close> is the number behind the \<open>i\<close>-th character the process
  draws, reduced to an index into the alphabet.
\<close>

definition generate_password :: "(nat \<Rightarrow> nat) \<Rightarrow> world \<Rightarrow> nat \<Rightarrow> string \<times> world" where
  "generate_password rng w len =
     (map (\<lambda>i. alphabet ! (rng (draws w + i) mod length alphabet)) [0..<len],
      w\<lparr>draws := draws w + len\<rparr>)"

text \<open>\<open>[normalize_phone(p) for p in ...]\<close>: an element that is not a \<open>str\<close> has no \<open>replace\<close>.\<close>

fun normalize_phones :: "json list \<Rightarrow> exn + string list" where
  "normalize_phones [] = Inr []"
| "normalize_phones (p # ps) =
     (case p of
        JStr s \<Rightarrow>
          (case normalize_phones ps of
             Inl e \<Rightarrow> Inl e
           | Inr ns \<Rightarrow> Inr (normalize_phone s # ns))
      | _ \<Rightarrow> Inl (attribute_error (type_name p) ''replace''))"

text \<open>
  From the answer of the lookup to the test of the \<open>if\<close>: \<open>Inr True\<close> when the phone number
  is rejected.
\<close>

definition phone_rejected :: "json \<Rightarrow> string \<Rightarrow> exn + bool" where
  "phone_rejected user_info phone =
     (case py_get user_info ''result'' (JDict []) of
        Inl e \<Rightarrow> Inl e
      | Inr r \<Rightarrow>
          (case py_get r ''telephonenumber'' (JList []) of
             Inl e \<Rightarrow> Inl e
           | Inr ipa_phones \<Rightarrow>
               (case py_iter ipa_phones of
                  Inl e \<Rightarrow> Inl e
                | Inr ps \<Rightarrow>
                    (case normalize_phones ps of
                       Inl e \<Rightarrow> Inl e
                     | Inr user_phones \<Rightarrow>
                         Inr (\<not> py_truthy ipa_phones
                              \<or> normalize_phone phone \<notin> set user_phones)))))"

definition forgot_reset_password ::
  "backend \<Rightarrow> (nat \<Rightarrow> nat) \<Rightarrow> config \<Rightarrow> string \<Rightarrow> string \<Rightarrow> string \<Rightarrow> world
    \<Rightarrow> outcome \<times> world" where
  "forgot_reset_password be rng cfg username phone new_password w =
     (let (ok, w1) = ensure_connection be cfg w in
      if \<not> ok then (error_outcome msg_not_connected, w1)
      else
        case client_call be w1 ''user_show'' (\<lambda>h. User_show h username) of
          (Inl e, w2) \<Rightarrow> (error_outcome (msg_reset_failed @ str_exn e), w2)
        | (Inr user_info, w2) \<Rightarrow>
            (case phone_rejected user_info phone of
               Inl e \<Rightarrow> (error_outcome (msg_reset_failed @ str_exn e), w2)
             | Inr True \<Rightarrow> (error_outcome msg_phone_not_verified, w2)
             | Inr False \<Rightarrow>
                 (let (temp_password, w3) = generate_password rng w2 12 in
                  case client_call be w3 ''user_mod''
                         (\<lambda>h. User_mod h username [(''o_userpassword'', JStr temp_password)]) of
                    (Inl e, w4) \<Rightarrow> (error_outcome (msg_reset_failed @ str_exn e), w4)
                  | (Inr res_mod, w4) \<Rightarrow>
                      if new_password \<noteq> [] then
                        (case client_call be w4 ''change_password''
                                (\<lambda>h. Change_password h username new_password temp_password) of
                           (Inl e, w5) \<Rightarrow> (error_outcome (msg_reset_failed @ str_exn e), w5)
                         | (Inr res_change, w5) \<Rightarrow>
                             (Some [(''result'', JStr msg_reset_new_password),
                                    (''username'', JStr username),
                                    (''new_password'', JStr new_password)], w5))
                      else
                        (Some [(''result'', JStr msg_reset_temp_password),
                               (''username'', JStr username),
                               (''new_password'', JStr temp_password)], w4))))"

subsection \<open>Users\<close>

definition user_list :: "backend \<Rightarrow> config \<Rightarrow> int \<Rightarrow> world \<Rightarrow> outcome \<times> world" where
  "user_list be cfg sizelimit w =
     (let (ok, w1) = ensure_connection be cfg w in
      if \<not> ok then (error_outcome msg_not_connected, w1)
      else
        let (r, w2) = client_call be w1 ''user_find'' (\<lambda>h. User_find h sizelimit)
        in (reply msg_user_list_failed (JList []) r, w2))"

definition user_show :: "backend \<Rightarrow> config \<Rightarrow> string \<Rightarrow> world \<Rightarrow> outcome \<times> world" where
  "user_show be cfg uid w =
     (let (ok, w1) = ensure_connection be cfg w in
      if \<not> ok then (error_outcome msg_not_connected, w1)
      else
        let (r, w2) = client_call be w1 ''user_show'' (\<lambda>h. User_show h uid)
        in (reply msg_user_details_failed (JDict []) r, w2))"

definition user_add ::
  "backend \<Rightarrow> config \<Rightarrow> string \<Rightarrow> string \<Rightarrow> string \<Rightarrow> string \<Rightarrow> string \<Rightarrow> world
    \<Rightarrow> outcome \<times> world" where
  "user_add be cfg uid givenname sn mail userpassword w =
     (let (ok, w1) = ensure_connection be cfg w in
      if \<not> ok then (error_outcome msg_not_connected, w1)
      else
        let (r, w2) = client_call be w1 ''user_add''
                        (\<lambda>h. User_add h uid givenname sn mail userpassword)
        in (reply msg_user_add_failed (JDict []) r, w2))"

text \<open>
  \<open>user_mod(a_uid=uid, **params)\<close>: a field named \<open>a_uid\<close> among \<open>params\<close> is a second value
  for that keyword, a \<open>TypeError\<close> raised before the method runs. The message names the
  method by its qualified name in the client library.
\<close>

definition user_modify ::
  "backend \<Rightarrow> config \<Rightarrow> string \<Rightarrow> (string \<times> json) list \<Rightarrow> world \<Rightarrow> outcome \<times> world" where
  "user_modify be cfg uid kwargs w =
     (let (ok, w1) = ensure_connection be cfg w in
      if \<not> ok then (error_outcome msg_not_connected, w1)
      else
        let params = filter (\<lambda>(k, v). v \<noteq> JNull) kwargs;
            (r, w2) =
              (if freeipa_client w1 \<noteq> None \<and> ''a_uid'' \<in> fst ` set params then
                 (Inl (Exn (''python_freeipa.client_meta.ClientMeta.user_mod() got multiple '' @
                            ''values for keyword argument '' @
                            [CHR 0x27] @ ''a_uid'' @ [CHR 0x27])), w1)
               else client_call be w1 ''user_mod'' (\<lambda>h. User_mod h uid params))
        in (reply msg_user_modify_failed (JDict []) r, w2))"

subsection \<open>Groups\<close>

definition group_list ::
  "backend \<Rightarrow> config \<Rightarrow> int \<Rightarrow> string \<Rightarrow> string \<Rightarrow> world \<Rightarrow> outcome \<times> world" where
  "group_list be cfg sizelimit cn description w =
     (let (ok, w1) = ensure_connection be cfg w in
      if \<not> ok then (error_outcome msg_not_connected, w1)
      else
        let (r, w2) =
              (if cn \<noteq> [] \<and> description \<noteq> [] then
                 client_call be w1 ''group_find''
                   (\<lambda>h. Group_find h (Some cn) (Some description) sizelimit)
               else if cn \<noteq> [] then
                 client_call be w1 ''group_find'' (\<lambda>h. Group_find h (Some cn) None sizelimit)
               else if description \<noteq> [] then
                 client_call be w1 ''group_find''
                   (\<lambda>h. Group_find h None (Some description) sizelimit)
               else client_call be w1 ''group_find'' (\<lambda>h. Group_find h None None sizelimit))
        in (reply msg_group_list_failed (JList []) r, w2))"

definition group_show :: "backend \<Rightarrow> config \<Rightarrow> string \<Rightarrow> world \<Rightarrow> outcome \<times> world" where
  "group_show be cfg cn w =
     (let (ok, w1) = ensure_connection be cfg w in
      if \<not> ok then (error_outcome msg_not_connected, w1)
      else
        let (r, w2) = client_call be w1 ''group_show'' (\<lambda>h. Group_show h cn)
        in (reply msg_group_details_failed (JDict []) r, w2))"

definition group_add ::
  "backend \<Rightarrow> config \<Rightarrow> string \<Rightarrow> string \<Rightarrow> world \<Rightarrow> outcome \<times> world" where
  "group_add be cfg cn description w =
     (let (ok, w1) = ensure_connection be cfg w in
      if \<not> ok then (error_outcome msg_not_connected, w1)
      else
        let (r, w2) = client_call be w1 ''group_add'' (\<lambda>h. Group_add h cn description)
        in (reply msg_group_add_failed (JDict []) r, w2))"

definition group_add_member ::
  "backend \<Rightarrow> config \<Rightarrow> string \<Rightarrow> string \<Rightarrow> world \<Rightarrow> outcome \<times> world" where
  "group_add_member be cfg cn user w =
     (let (ok, w1) = ensure_connection be cfg w in
      if \<not> ok then (error_outcome msg_not_connected, w1)
      else
        let (r, w2) = client_call be w1 ''group_add_member'' (\<lambda>h. Group_add_member h cn user)
        in (reply msg_group_add_member_failed (JDict []) r, w2))"

definition group_remove_member ::
  "backend \<Rightarrow> config \<Rightarrow> string \<Rightarrow> string \<Rightarrow> world \<Rightarrow> outcome \<times> world" where
  "group_remove_member be cfg cn user w =
     (let (ok, w1) = ensure_connection be cfg w in
      if \<not> ok then (error_outcome msg_not_connected, w1)
      else
        let (r, w2) = client_call be w1 ''group_remove_member''
                        (\<lambda>h. Group_remove_member h cn user)
        in (reply msg_group_remove_member_failed (JDict []) r, w2))"

subsection \<open>The tool surface\<close>

text \<open>The tools registered with \<open>@mcp.tool()\<close>, with their arguments.\<close>

datatype tool =
    Tool_freeipa_connect string string string bool
  | Tool_freeipa_disconnect
  | Tool_freeipa_status
  | Tool_change_password string string string
  | Tool_forgot_reset_password string string string
  | Tool_user_list int
  | Tool_user_show string
  | Tool_user_add string string string string string
  | Tool_user_modify string "(string \<times> json) list"
  | Tool_group_list int string string
  | Tool_group_show string
  | Tool_group_add string string
  | Tool_group_add_member string string
  | Tool_group_remove_member string string

fun run_tool :: "backend \<Rightarrow> (nat \<Rightarrow> nat) \<Rightarrow> config \<Rightarrow> tool \<Rightarrow> world \<Rightarrow> outcome \<times> world" where
  "run_tool be rng cfg (Tool_freeipa_connect server username password verify_ssl) w =
     freeipa_connect be server username password verify_ssl w"
| "run_tool be rng cfg Tool_freeipa_disconnect w = freeipa_disconnect be w"
| "run_tool be rng cfg Tool_freeipa_status w = freeipa_status be w"
| "run_tool be rng cfg (Tool_change_password username new_password old_password) w =
     change_password be cfg username new_password old_password w"
| "run_tool be rng cfg (Tool_forgot_reset_password username phone new_password) w =
     forgot_reset_password be rng cfg username phone new_password w"
| "run_tool be rng cfg (Tool_user_list sizelimit) w = user_list be cfg sizelimit w"
| "run_tool be rng cfg (Tool_user_show uid) w = user_show be cfg uid w"
| "run_tool be rng cfg (Tool_user_add uid givenname sn mail userpassword) w =
     user_add be cfg uid givenname sn mail userpassword w"
| "run_tool be rng cfg (Tool_user_modify uid kwargs) w = user_modify be cfg uid kwargs w"
| "run_tool be rng cfg (Tool_group_list sizelimit cn description) w =
     group_list be cfg sizelimit cn description w"
| "run_tool be rng cfg (Tool_group_show cn) w = group_show be cfg cn w"
| "run_tool be rng cfg (Tool_group_add cn description) w = group_add be cfg cn description w"
| "run_tool be rng cfg (Tool_group_add_member cn user) w = group_add_member be cfg cn user w"
| "run_tool be rng cfg (Tool_group_remove_member cn user) w =
     group_remove_member be cfg cn user w"

text \<open>The directory tools: every tool but connect, disconnect and status.\<close>

fun directory_tool :: "tool \<Rightarrow> bool" where
  "directory_tool (Tool_freeipa_connect server username password verify_ssl) = False"
| "directory_tool Tool_freeipa_disconnect = False"
| "directory_tool Tool_freeipa_status = False"
| "directory_tool t = True"

text \<open>The calls that reach the directory: the methods other than login, logout and ping.\<close>

fun directory_call :: "call \<Rightarrow> bool" where
  "directory_call (ClientMeta server verify_ssl) = False"
| "directory_call (Login h username password) = False"
| "directory_call (Logout h) = False"
| "directory_call (Ping h) = False"
| "directory_call c = True"

text \<open>
  Everything that changes the session: a tool call, the connection gate on its own, and
  the connect of the startup hook.
\<close>

datatype operation = Call_tool tool | Ensure_connection | Startup

fun step :: "backend \<Rightarrow> (nat \<Rightarrow> nat) \<Rightarrow> config \<Rightarrow> operation \<Rightarrow> world \<Rightarrow> world" where
  "step be rng cfg (Call_tool t) w = snd (run_tool be rng cfg t w)"
| "step be rng cfg Ensure_connection w = snd (ensure_connection be cfg w)"
| "step be rng cfg Startup w = snd (connect_freeipa be cfg w)"

definition run :: "backend \<Rightarrow> (nat \<Rightarrow> nat) \<Rightarrow> config \<Rightarrow> operation list \<Rightarrow> world \<Rightarrow> world" where
  "run be rng cfg ops w = fold (step be rng cfg) ops w"

text \<open>The session invariant: a set flag comes with a handle.\<close>

definition session_inv :: "world \<Rightarrow> bool" where
  "session_inv w = (freeipa_connected w \<longrightarrow> freeipa_client w \<noteq> None)"

text \<open>An outcome has exactly one of the fields \<open>result\<close> and \<open>error\<close>.\<close>

definition result_xor_error :: "outcome \<Rightarrow> bool" where
  "result_xor_error out =
     (case out of
        None \<Rightarrow> False
      | Some d \<Rightarrow> (map_of d ''result'' \<noteq> None) \<noteq> (map_of d ''error'' \<noteq> None))"

definition example_config :: config where
  "example_config =
     \<lparr>FREEIPA_SERVER = ''ipa.example.org'', FREEIPA_USERNAME = ''admin'',
      FREEIPA_PASSWORD = ''secret'', FREEIPA_VERIFY_SSL = False\<rparr>"

definition failing_backend :: "(call \<Rightarrow> bool) \<Rightarrow> backend" where
  "failing_backend fails tr c = (if fails c then Inl (Exn ''refused'') else Inr JNull)"

fun is_login :: "call \<Rightarrow> bool" where
  "is_login (Login h username password) = True"
| "is_login c = False"

fun is_logout :: "call \<Rightarrow> bool" where
  "is_logout (Logout h) = True"
| "is_logout c = False"

fun is_ping :: "call \<Rightarrow> bool" where
  "is_ping (Ping h) = True"
| "is_ping c = False"

fun is_construction :: "call \<Rightarrow> bool" where
  "is_construction (ClientMeta server verify_ssl) = True"
| "is_construction c = False"

definition connect_attempts :: "call list \<Rightarrow> nat" where
  "connect_attempts tr = length (filter is_construction tr)"

definition example_handle :: handle where
  "example_handle = \<lparr>h_id = 0, h_server = ''ipa.example.org'', h_verify_ssl = False\<rparr>"

definition connected_world :: world where
  "connected_world =
     \<lparr>freeipa_client = Some example_handle, freeipa_connected = True,
      trace = [ClientMeta ''ipa.example.org'' False, Login example_handle ''admin'' ''secret''],
      draws = 0\<rparr>"


text \<open>Whether the logout that \<open>freeipa_disconnect\<close> attempts raises.\<close>

definition logout_raises :: "backend \<Rightarrow> world \<Rightarrow> bool" where
  "logout_raises be w =
     (case freeipa_client w of
        None \<Rightarrow> False
      | Some h \<Rightarrow> (case be (trace w) (Logout h) of Inl e \<Rightarrow> True | Inr r \<Rightarrow> False))"


text \<open>A backend that knows one account, with one registered phone number.\<close>

definition alice_info :: json where
  "alice_info =
     JDict [(''result'', JDict [(''uid'', JList [JStr ''alice'']),
                                (''telephonenumber'', JList [JStr ''+90 555 123 45 67''])])]"

fun alice_backend :: backend where
  "alice_backend tr (User_show h uid) =
     (if uid = ''alice'' then Inr alice_info else Inl (Exn ''alice: user not found''))"
| "alice_backend tr c = Inr JNull"


text \<open>
  The normalization as the specification words it: the prefix \<open>+90\<close> is stripped, then one
  leading \<open>0\<close>, then every space and hyphen, and nothing else.
\<close>

definition strip_prefix_str :: "string \<Rightarrow> string \<Rightarrow> string" where
  "strip_prefix_str p s = (if take (length p) s = p then drop (length p) s else s)"

definition normalize_phone_as_specified :: "string \<Rightarrow> string" where
  "normalize_phone_as_specified phone =
     filter (\<lambda>c. c \<noteq> CHR '' '' \<and> c \<noteq> CHR ''-'')
       (strip_prefix_str ''0'' (strip_prefix_str ''+90'' phone))"

text \<open>Deleting \<open>+90\<close> wherever it stands, scanning from the left.\<close>

fun delete_country_code :: "string \<Rightarrow> string" where
  "delete_country_code [] = []"
| "delete_country_code (c # cs) =
     (if take 3 (c # cs) = ''+90'' then delete_country_code (drop 2 cs)
      else c # delete_country_code cs)"

text \<open>
  Object graphs for the normalizer: a list that contains itself, and a dict with one key
  whose \<open>__str__\<close> raises.
\<close>

definition self_list :: "unit \<Rightarrow> unit pyobj" where
  "self_list a = PList [()]"

definition bad_key_dict :: "nat \<Rightarrow> nat pyobj" where
  "bad_key_dict a =
     (if a = 0 then PDict [(OtherKey (Inl (Exn ''__str__ failed'')), 1)] else PInt 1)"

text \<open>Every key of every dict of the graph has a string form.\<close>

definition keys_printable :: "('a \<Rightarrow> 'a pyobj) \<Rightarrow> bool" where
  "keys_printable h =
     (\<forall>a entries key. h a = PDict entries \<longrightarrow> key \<in> fst ` set entries \<longrightarrow>
        (\<exists>k. str_key key = Inr k))"

section \<open>Properties of the normalizer\<close>

text \<open>
  Claim C3. Whatever the value, a call of the normalizer at a depth above the bound returns
  exactly the string \<open>[Max Depth Exceeded]\<close>. The depths are Python integers; the
  statement covers the negative ones too.
\<close>

theorem max_depth_exceeded:
  "max_depth < current_depth \<Longrightarrow>
     safe_json_serialize h obj max_depth current_depth = Inr (JStr ''[Max Depth Exceeded]'')"
  by (simp add: safe_json_serialize.simps)

theorem max_depth_exceeded_witness:
  "(10::int) < 11 \<and>
   safe_json_serialize (\<lambda>n::nat. PList [n]) 0 10 11 = Inr (JStr ''[Max Depth Exceeded]'')"
  using max_depth_exceeded [of 10 11 "\<lambda>n::nat. PList [n]" 0] by simp

section \<open>The session manager\<close>

lemma connect_freeipa_cases:
  obtains (construct_failed) e where
      "be (trace w) (ClientMeta (FREEIPA_SERVER cfg) (FREEIPA_VERIFY_SSL cfg)) = Inl e"
      "connect_freeipa be cfg w =
         (False, w\<lparr>freeipa_connected := False,
                   trace := trace w @ [ClientMeta (FREEIPA_SERVER cfg) (FREEIPA_VERIFY_SSL cfg)]\<rparr>)"
  | (login_failed) r e h where
      "be (trace w) (ClientMeta (FREEIPA_SERVER cfg) (FREEIPA_VERIFY_SSL cfg)) = Inr r"
      "h = new_handle w (FREEIPA_SERVER cfg) (FREEIPA_VERIFY_SSL cfg)"
      "be (trace w @ [ClientMeta (FREEIPA_SERVER cfg) (FREEIPA_VERIFY_SSL cfg)])
          (Login h (FREEIPA_USERNAME cfg) (FREEIPA_PASSWORD cfg)) = Inl e"
      "connect_freeipa be cfg w =
         (False, w\<lparr>freeipa_client := Some h, freeipa_connected := False,
                   trace := trace w @ [ClientMeta (FREEIPA_SERVER cfg) (FREEIPA_VERIFY_SSL cfg),
                                       Login h (FREEIPA_USERNAME cfg) (FREEIPA_PASSWORD cfg)]\<rparr>)"
  | (connected) r r' h where
      "be (trace w) (ClientMeta (FREEIPA_SERVER cfg) (FREEIPA_VERIFY_SSL cfg)) = Inr r"
      "h = new_handle w (FREEIPA_SERVER cfg) (FREEIPA_VERIFY_SSL cfg)"
      "be (trace w @ [ClientMeta (FREEIPA_SERVER cfg) (FREEIPA_VERIFY_SSL cfg)])
          (Login h (FREEIPA_USERNAME cfg) (FREEIPA_PASSWORD cfg)) = Inr r'"
      "connect_freeipa be cfg w =
         (True, w\<lparr>freeipa_client := Some h, freeipa_connected := True,
                  trace := trace w @ [ClientMeta (FREEIPA_SERVER cfg) (FREEIPA_VERIFY_SSL cfg),
                                      Login h (FREEIPA_USERNAME cfg) (FREEIPA_PASSWORD cfg)]\<rparr>)"
proof (cases "be (trace w) (ClientMeta (FREEIPA_SERVER cfg) (FREEIPA_VERIFY_SSL cfg))")
  case (Inl e)
  then show ?thesis
    using construct_failed by (simp add: connect_freeipa_def construct_def invoke_def)
next
  case (Inr r)
  let ?h = "new_handle w (FREEIPA_SERVER cfg) (FREEIPA_VERIFY_SSL cfg)"
  show ?thesis
  proof (cases "be (trace w @ [ClientMeta (FREEIPA_SERVER cfg) (FREEIPA_VERIFY_SSL cfg)])
          (Login ?h (FREEIPA_USERNAME cfg) (FREEIPA_PASSWORD cfg))")
    case (Inl e)
    with Inr show ?thesis
      using login_failed [of r ?h e] by (simp add: connect_freeipa_def construct_def invoke_def)
  next
    case (Inr r')
    with \<open>be (trace w) _ = Inr r\<close> show ?thesis
      using connected [of r ?h r'] by (simp add: connect_freeipa_def construct_def invoke_def)
  qed
qed

lemma connect_freeipa_inv: "session_inv (snd (connect_freeipa be cfg w))"
  by (rule connect_freeipa_cases [where be = be and w = w and cfg = cfg]) (simp_all add: session_inv_def)

lemma connect_freeipa_True:
  "fst (connect_freeipa be cfg w) \<Longrightarrow>
     freeipa_connected (snd (connect_freeipa be cfg w)) \<and>
     freeipa_client (snd (connect_freeipa be cfg w)) \<noteq> None"
  by (rule connect_freeipa_cases [where be = be and w = w and cfg = cfg]) simp_all

lemma connect_freeipa_directory_calls:
  "filter directory_call (trace (snd (connect_freeipa be cfg w))) = filter directory_call (trace w)"
  by (rule connect_freeipa_cases [where be = be and w = w and cfg = cfg]) simp_all

lemma connect_freeipa_draws: "draws (snd (connect_freeipa be cfg w)) = draws w"
  by (rule connect_freeipa_cases [where be = be and w = w and cfg = cfg]) simp_all

lemma ensure_connection_cases:
  obtains (reconnect) "\<not> freeipa_connected w \<or> freeipa_client w = None"
      "ensure_connection be cfg w = connect_freeipa be cfg w"
  | (alive) h r where "freeipa_connected w" "freeipa_client w = Some h"
      "be (trace w) (Ping h) = Inr r"
      "ensure_connection be cfg w = (True, w\<lparr>trace := trace w @ [Ping h]\<rparr>)"
  | (dropped) h e where "freeipa_connected w" "freeipa_client w = Some h"
      "be (trace w) (Ping h) = Inl e"
      "ensure_connection be cfg w = connect_freeipa be cfg (w\<lparr>trace := trace w @ [Ping h]\<rparr>)"
proof (cases "\<not> freeipa_connected w \<or> freeipa_client w = None")
  case True
  then show ?thesis using reconnect by (simp add: ensure_connection_def)
next
  case False
  then obtain h where h: "freeipa_connected w" "freeipa_client w = Some h" by auto
  show ?thesis
  proof (cases "be (trace w) (Ping h)")
    case (Inl e)
    with h show ?thesis
      using dropped [of h e] by (simp add: ensure_connection_def client_call_def invoke_def)
  next
    case (Inr r)
    with h show ?thesis
      using alive [of h r] by (simp add: ensure_connection_def client_call_def invoke_def)
  qed
qed

lemma ensure_connection_inv: "session_inv (snd (ensure_connection be cfg w))"
  by (rule ensure_connection_cases [where be = be and w = w and cfg = cfg])
     (simp_all add: connect_freeipa_inv, simp add: session_inv_def)

lemma ensure_connection_True:
  "fst (ensure_connection be cfg w) \<Longrightarrow>
     freeipa_connected (snd (ensure_connection be cfg w)) \<and>
     freeipa_client (snd (ensure_connection be cfg w)) \<noteq> None"
  by (rule ensure_connection_cases [where be = be and w = w and cfg = cfg]) (simp_all add: connect_freeipa_True)

lemma ensure_connection_directory_calls:
  "filter directory_call (trace (snd (ensure_connection be cfg w))) =
     filter directory_call (trace w)"
  by (rule ensure_connection_cases [where be = be and w = w and cfg = cfg])
     (simp_all add: connect_freeipa_directory_calls)


lemma connect_freeipa_attempt:
  "\<exists>rest. trace (snd (connect_freeipa be cfg w)) =
            trace w @ ClientMeta (FREEIPA_SERVER cfg) (FREEIPA_VERIFY_SSL cfg) # rest \<and>
          (rest = [] \<or> (\<exists>h. rest = [Login h (FREEIPA_USERNAME cfg) (FREEIPA_PASSWORD cfg)]))"
  by (rule connect_freeipa_cases [where be = be and w = w and cfg = cfg]) simp_all

text \<open>
  Claim C1. When the flag is set and a handle is present, \<open>ensure_connection\<close> pings the
  backend through that handle. If the ping returns, the gate returns \<open>True\<close>, the session is
  as before and no connect attempt has been made. If the ping raises, the gate makes exactly
  one connect attempt and returns its outcome: it constructs one handle with the server and
  the certificate policy of the process configuration; if the constructor raises, the gate
  returns \<open>False\<close> with the flag cleared and the old handle kept; otherwise it stores the new
  handle and logs in through it with the configured user name and password, and returns
  \<open>True\<close> with the flag set if the login returns, \<open>False\<close> with the flag cleared if it
  raises. Nothing else is called.
\<close>

theorem ensure_connection_while_connected:
  assumes "freeipa_connected w" and "freeipa_client w = Some h"
  shows "case be (trace w) (Ping h) of
           Inr r \<Rightarrow>
             ensure_connection be cfg w = (True, w\<lparr>trace := trace w @ [Ping h]\<rparr>) \<and>
             connect_attempts (trace (snd (ensure_connection be cfg w))) =
               connect_attempts (trace w)
         | Inl e \<Rightarrow>
             ensure_connection be cfg w =
               connect_freeipa be cfg (w\<lparr>trace := trace w @ [Ping h]\<rparr>) \<and>
             connect_attempts (trace (snd (ensure_connection be cfg w))) =
               connect_attempts (trace w) + 1 \<and>
             (case be (trace w @ [Ping h])
                     (ClientMeta (FREEIPA_SERVER cfg) (FREEIPA_VERIFY_SSL cfg)) of
                Inl e1 \<Rightarrow>
                  ensure_connection be cfg w =
                    (False,
                     w\<lparr>freeipa_connected := False,
                       trace := trace w @
                         [Ping h, ClientMeta (FREEIPA_SERVER cfg) (FREEIPA_VERIFY_SSL cfg)]\<rparr>)
              | Inr r1 \<Rightarrow>
                  (case be (trace w @
                             [Ping h, ClientMeta (FREEIPA_SERVER cfg) (FREEIPA_VERIFY_SSL cfg)])
                          (Login (new_handle (w\<lparr>trace := trace w @ [Ping h]\<rparr>)
                                    (FREEIPA_SERVER cfg) (FREEIPA_VERIFY_SSL cfg))
                             (FREEIPA_USERNAME cfg) (FREEIPA_PASSWORD cfg)) of
                     Inl e2 \<Rightarrow>
                       ensure_connection be cfg w =
                         (False,
                          w\<lparr>freeipa_client :=
                              Some (new_handle (w\<lparr>trace := trace w @ [Ping h]\<rparr>)
                                      (FREEIPA_SERVER cfg) (FREEIPA_VERIFY_SSL cfg)),
                            freeipa_connected := False,
                            trace := trace w @
                              [Ping h, ClientMeta (FREEIPA_SERVER cfg) (FREEIPA_VERIFY_SSL cfg),
                               Login (new_handle (w\<lparr>trace := trace w @ [Ping h]\<rparr>)
                                        (FREEIPA_SERVER cfg) (FREEIPA_VERIFY_SSL cfg))
                                 (FREEIPA_USERNAME cfg) (FREEIPA_PASSWORD cfg)]\<rparr>)
                   | Inr r2 \<Rightarrow>
                       ensure_connection be cfg w =
                         (True,
                          w\<lparr>freeipa_client :=
                              Some (new_handle (w\<lparr>trace := trace w @ [Ping h]\<rparr>)
                                      (FREEIPA_SERVER cfg) (FREEIPA_VERIFY_SSL cfg)),
                            freeipa_connected := True,
                            trace := trace w @
                              [Ping h, ClientMeta (FREEIPA_SERVER cfg) (FREEIPA_VERIFY_SSL cfg),
                               Login (new_handle (w\<lparr>trace := trace w @ [Ping h]\<rparr>)
                                        (FREEIPA_SERVER cfg) (FREEIPA_VERIFY_SSL cfg))
                                 (FREEIPA_USERNAME cfg) (FREEIPA_PASSWORD cfg)]\<rparr>)))"
proof (cases "be (trace w) (Ping h)")
  case (Inr r)
  with assms show ?thesis
    by (simp add: ensure_connection_def client_call_def invoke_def connect_attempts_def)
next
  case (Inl e)
  let ?w1 = "w\<lparr>trace := trace w @ [Ping h]\<rparr>"
  from Inl assms have eq: "ensure_connection be cfg w = connect_freeipa be cfg ?w1"
    by (simp add: ensure_connection_def client_call_def invoke_def)
  obtain rest where rest:
    "trace (snd (connect_freeipa be cfg ?w1)) =
       trace ?w1 @ ClientMeta (FREEIPA_SERVER cfg) (FREEIPA_VERIFY_SSL cfg) # rest"
    "rest = [] \<or> (\<exists>h'. rest = [Login h' (FREEIPA_USERNAME cfg) (FREEIPA_PASSWORD cfg)])"
    using connect_freeipa_attempt [of be cfg ?w1] by blast
  from rest have count: "connect_attempts (trace (snd (connect_freeipa be cfg ?w1))) =
      connect_attempts (trace w) + 1"
    by (auto simp: connect_attempts_def)
  have outcome: "case be (trace w @ [Ping h])
                     (ClientMeta (FREEIPA_SERVER cfg) (FREEIPA_VERIFY_SSL cfg)) of
                Inl e1 \<Rightarrow>
                  connect_freeipa be cfg ?w1 =
                    (False,
                     w\<lparr>freeipa_connected := False,
                       trace := trace w @
                         [Ping h, ClientMeta (FREEIPA_SERVER cfg) (FREEIPA_VERIFY_SSL cfg)]\<rparr>)
              | Inr r1 \<Rightarrow>
                  (case be (trace w @
                             [Ping h, ClientMeta (FREEIPA_SERVER cfg) (FREEIPA_VERIFY_SSL cfg)])
                          (Login (new_handle ?w1 (FREEIPA_SERVER cfg) (FREEIPA_VERIFY_SSL cfg))
                             (FREEIPA_USERNAME cfg) (FREEIPA_PASSWORD cfg)) of
                     Inl e2 \<Rightarrow>
                       connect_freeipa be cfg ?w1 =
                         (False,
                          w\<lparr>freeipa_client :=
                              Some (new_handle ?w1 (FREEIPA_SERVER cfg) (FREEIPA_VERIFY_SSL cfg)),
                            freeipa_connected := False,
                            trace := trace w @
                              [Ping h, ClientMeta (FREEIPA_SERVER cfg) (FREEIPA_VERIFY_SSL cfg),
                               Login (new_handle ?w1 (FREEIPA_SERVER cfg) (FREEIPA_VERIFY_SSL cfg))
                                 (FREEIPA_USERNAME cfg) (FREEIPA_PASSWORD cfg)]\<rparr>)
                   | Inr r2 \<Rightarrow>
                       connect_freeipa be cfg ?w1 =
                         (True,
                          w\<lparr>freeipa_client :=
                              Some (new_handle ?w1 (FREEIPA_SERVER cfg) (FREEIPA_VERIFY_SSL cfg)),
                            freeipa_connected := True,
                            trace := trace w @
                              [Ping h, ClientMeta (FREEIPA_SERVER cfg) (FREEIPA_VERIFY_SSL cfg),
                               Login (new_handle ?w1 (FREEIPA_SERVER cfg) (FREEIPA_VERIFY_SSL cfg))
                                 (FREEIPA_USERNAME cfg) (FREEIPA_PASSWORD cfg)]\<rparr>))"
    by (rule connect_freeipa_cases [where be = be and w = ?w1 and cfg = cfg]) simp_all
  show ?thesis
    unfolding Inl sum.case eq using count outcome by blast
qed

theorem ensure_connection_while_connected_witness:
  "freeipa_connected connected_world \<and> freeipa_client connected_world = Some example_handle \<and>
   ensure_connection (failing_backend (\<lambda>c. False)) example_config connected_world =
     (True, connected_world\<lparr>trace := trace connected_world @ [Ping example_handle]\<rparr>) \<and>
   connect_attempts
     (trace (snd (ensure_connection (failing_backend is_ping) example_config connected_world))) =
     connect_attempts (trace connected_world) + 1 \<and>
   ensure_connection (failing_backend is_ping) example_config connected_world =
     (True,
      connected_world
        \<lparr>freeipa_client := Some \<lparr>h_id = 3, h_server = ''ipa.example.org'', h_verify_ssl = False\<rparr>,
          freeipa_connected := True,
          trace := trace connected_world @
            [Ping example_handle, ClientMeta ''ipa.example.org'' False,
             Login \<lparr>h_id = 3, h_server = ''ipa.example.org'', h_verify_ssl = False\<rparr>
               ''admin'' ''secret'']\<rparr>)"
proof -
  have held: "freeipa_connected connected_world"
    "freeipa_client connected_world = Some example_handle"
    by (simp_all add: connected_world_def)
  have alive: "failing_backend (\<lambda>c. False) (trace connected_world) (Ping example_handle) = Inr JNull"
    by (simp add: failing_backend_def)
  have dropped: "failing_backend is_ping (trace connected_world) (Ping example_handle) =
      Inl (Exn ''refused'')"
    by (simp add: failing_backend_def)
  have built: "failing_backend is_ping (trace connected_world @ [Ping example_handle])
      (ClientMeta (FREEIPA_SERVER example_config) (FREEIPA_VERIFY_SSL example_config)) = Inr JNull"
    by (simp add: failing_backend_def)
  have logged_in: "failing_backend is_ping
      (trace connected_world @
         [Ping example_handle,
          ClientMeta (FREEIPA_SERVER example_config) (FREEIPA_VERIFY_SSL example_config)])
      (Login (new_handle (connected_world\<lparr>trace := trace connected_world @ [Ping example_handle]\<rparr>)
                (FREEIPA_SERVER example_config) (FREEIPA_VERIFY_SSL example_config))
         (FREEIPA_USERNAME example_config) (FREEIPA_PASSWORD example_config)) = Inr JNull"
    by (simp add: failing_backend_def)
  have one: "ensure_connection (failing_backend (\<lambda>c. False)) example_config connected_world =
     (True, connected_world\<lparr>trace := trace connected_world @ [Ping example_handle]\<rparr>)"
    using ensure_connection_while_connected
            [OF held, of "failing_backend (\<lambda>c. False)" example_config]
    unfolding alive sum.case by blast
  have two: "connect_attempts
     (trace (snd (ensure_connection (failing_backend is_ping) example_config connected_world))) =
     connect_attempts (trace connected_world) + 1"
    using ensure_connection_while_connected
            [OF held, of "failing_backend is_ping" example_config]
    unfolding dropped sum.case by blast
  have "ensure_connection (failing_backend is_ping) example_config connected_world =
     (True,
      connected_world
        \<lparr>freeipa_client :=
            Some (new_handle (connected_world\<lparr>trace := trace connected_world @ [Ping example_handle]\<rparr>)
                    (FREEIPA_SERVER example_config) (FREEIPA_VERIFY_SSL example_config)),
          freeipa_connected := True,
          trace := trace connected_world @
            [Ping example_handle,
             ClientMeta (FREEIPA_SERVER example_config) (FREEIPA_VERIFY_SSL example_config),
             Login (new_handle (connected_world\<lparr>trace := trace connected_world @ [Ping example_handle]\<rparr>)
                      (FREEIPA_SERVER example_config) (FREEIPA_VERIFY_SSL example_config))
               (FREEIPA_USERNAME example_config) (FREEIPA_PASSWORD example_config)]\<rparr>)"
    using ensure_connection_while_connected
            [OF held, of "failing_backend is_ping" example_config]
    unfolding dropped built logged_in sum.case by blast
  then have three: "ensure_connection (failing_backend is_ping) example_config connected_world =
     (True,
      connected_world
        \<lparr>freeipa_client := Some \<lparr>h_id = 3, h_server = ''ipa.example.org'', h_verify_ssl = False\<rparr>,
          freeipa_connected := True,
          trace := trace connected_world @
            [Ping example_handle, ClientMeta ''ipa.example.org'' False,
             Login \<lparr>h_id = 3, h_server = ''ipa.example.org'', h_verify_ssl = False\<rparr>
               ''admin'' ''secret'']\<rparr>)"
    by (simp add: new_handle_def example_config_def connected_world_def)
  from held one two three show ?thesis by simp
qed

section \<open>Connect and disconnect\<close>

lemma freeipa_connect_cases:
  obtains (construct_failed) e where
      "be (trace w) (ClientMeta server verify_ssl) = Inl e"
      "freeipa_connect be server username password verify_ssl w =
         (error_outcome (msg_connect_failed @ str_exn e),
          w\<lparr>freeipa_connected := False, trace := trace w @ [ClientMeta server verify_ssl]\<rparr>)"
  | (login_failed) r e h where
      "be (trace w) (ClientMeta server verify_ssl) = Inr r"
      "h = new_handle w server verify_ssl"
      "be (trace w @ [ClientMeta server verify_ssl]) (Login h username password) = Inl e"
      "freeipa_connect be server username password verify_ssl w =
         (error_outcome (msg_connect_failed @ str_exn e),
          w\<lparr>freeipa_client := Some h, freeipa_connected := False,
            trace := trace w @ [ClientMeta server verify_ssl, Login h username password]\<rparr>)"
  | (connected) r r' h where
      "be (trace w) (ClientMeta server verify_ssl) = Inr r"
      "h = new_handle w server verify_ssl"
      "be (trace w @ [ClientMeta server verify_ssl]) (Login h username password) = Inr r'"
      "freeipa_connect be server username password verify_ssl w =
         (result_outcome (JStr (msg_connected @ server)),
          w\<lparr>freeipa_client := Some h, freeipa_connected := True,
            trace := trace w @ [ClientMeta server verify_ssl, Login h username password]\<rparr>)"
proof (cases "be (trace w) (ClientMeta server verify_ssl)")
  case (Inl e)
  then show ?thesis
    using construct_failed by (simp add: freeipa_connect_def construct_def invoke_def)
next
  case (Inr r)
  let ?h = "new_handle w server verify_ssl"
  show ?thesis
  proof (cases "be (trace w @ [ClientMeta server verify_ssl]) (Login ?h username password)")
    case (Inl e)
    with Inr show ?thesis
      using login_failed [of r ?h e] by (simp add: freeipa_connect_def construct_def invoke_def)
  next
    case (Inr r')
    with \<open>be (trace w) _ = Inr r\<close> show ?thesis
      using connected [of r ?h r'] by (simp add: freeipa_connect_def construct_def invoke_def)
  qed
qed

lemma freeipa_connect_inv:
  "session_inv (snd (freeipa_connect be server username password verify_ssl w))"
  by (rule freeipa_connect_cases [where be = be and w = w and server = server
        and username = username and password = password and verify_ssl = verify_ssl])
     (simp_all add: session_inv_def)

lemma outcome_simps [simp]:
  "result_outcome v \<noteq> error_outcome m"
  "error_outcome m \<noteq> result_outcome v"
  "(error_outcome m = error_outcome m') = (m = m')"
  by (simp_all add: result_outcome_def error_outcome_def)

text \<open>
  Claim C4, as the code has it. A connect that fails leaves the flag false and returns an
  error whose text is the connect-failed message followed by the text of the exception the
  backend raised. The handle is not discarded. When the constructor raised, nothing else is
  called and the session still holds the handle it held before. When the constructor
  returned and the login raised, the session holds the handle that was just constructed.
  The internal \<open>connect_freeipa\<close>, run on the process configuration, treats flag and handle
  the same way and returns \<open>False\<close>.
\<close>

theorem connect_failure:
  assumes "fst (freeipa_connect be server username password verify_ssl w) \<noteq>
             result_outcome (JStr (msg_connected @ server))"
  shows "(case be (trace w) (ClientMeta server verify_ssl) of
            Inl e \<Rightarrow>
              freeipa_connect be server username password verify_ssl w =
                (error_outcome (msg_connect_failed @ str_exn e),
                 w\<lparr>freeipa_connected := False,
                   trace := trace w @ [ClientMeta server verify_ssl]\<rparr>)
          | Inr r \<Rightarrow>
              (\<exists>e. be (trace w @ [ClientMeta server verify_ssl])
                      (Login (new_handle w server verify_ssl) username password) = Inl e \<and>
                   freeipa_connect be server username password verify_ssl w =
                     (error_outcome (msg_connect_failed @ str_exn e),
                      w\<lparr>freeipa_client := Some (new_handle w server verify_ssl),
                        freeipa_connected := False,
                        trace := trace w @
                          [ClientMeta server verify_ssl,
                           Login (new_handle w server verify_ssl) username password]\<rparr>))) \<and>
         (\<not> fst (connect_freeipa be cfg w) \<longrightarrow>
            (case be (trace w) (ClientMeta (FREEIPA_SERVER cfg) (FREEIPA_VERIFY_SSL cfg)) of
               Inl e \<Rightarrow>
                 connect_freeipa be cfg w =
                   (False,
                    w\<lparr>freeipa_connected := False,
                      trace := trace w @
                        [ClientMeta (FREEIPA_SERVER cfg) (FREEIPA_VERIFY_SSL cfg)]\<rparr>)
             | Inr r \<Rightarrow>
                 (\<exists>e. be (trace w @ [ClientMeta (FREEIPA_SERVER cfg) (FREEIPA_VERIFY_SSL cfg)])
                         (Login (new_handle w (FREEIPA_SERVER cfg) (FREEIPA_VERIFY_SSL cfg))
                            (FREEIPA_USERNAME cfg) (FREEIPA_PASSWORD cfg)) = Inl e \<and>
                      connect_freeipa be cfg w =
                        (False,
                         w\<lparr>freeipa_client :=
                             Some (new_handle w (FREEIPA_SERVER cfg) (FREEIPA_VERIFY_SSL cfg)),
                           freeipa_connected := False,
                           trace := trace w @
                             [ClientMeta (FREEIPA_SERVER cfg) (FREEIPA_VERIFY_SSL cfg),
                              Login (new_handle w (FREEIPA_SERVER cfg) (FREEIPA_VERIFY_SSL cfg))
                                (FREEIPA_USERNAME cfg) (FREEIPA_PASSWORD cfg)]\<rparr>))))"
proof -
  have internal: "\<not> fst (connect_freeipa be cfg w) \<longrightarrow>
            (case be (trace w) (ClientMeta (FREEIPA_SERVER cfg) (FREEIPA_VERIFY_SSL cfg)) of
               Inl e \<Rightarrow>
                 connect_freeipa be cfg w =
                   (False,
                    w\<lparr>freeipa_connected := False,
                      trace := trace w @
                        [ClientMeta (FREEIPA_SERVER cfg) (FREEIPA_VERIFY_SSL cfg)]\<rparr>)
             | Inr r \<Rightarrow>
                 (\<exists>e. be (trace w @ [ClientMeta (FREEIPA_SERVER cfg) (FREEIPA_VERIFY_SSL cfg)])
                         (Login (new_handle w (FREEIPA_SERVER cfg) (FREEIPA_VERIFY_SSL cfg))
                            (FREEIPA_USERNAME cfg) (FREEIPA_PASSWORD cfg)) = Inl e \<and>
                      connect_freeipa be cfg w =
                        (False,
                         w\<lparr>freeipa_client :=
                             Some (new_handle w (FREEIPA_SERVER cfg) (FREEIPA_VERIFY_SSL cfg)),
                           freeipa_connected := False,
                           trace := trace w @
                             [ClientMeta (FREEIPA_SERVER cfg) (FREEIPA_VERIFY_SSL cfg),
                              Login (new_handle w (FREEIPA_SERVER cfg) (FREEIPA_VERIFY_SSL cfg))
                                (FREEIPA_USERNAME cfg) (FREEIPA_PASSWORD cfg)]\<rparr>)))"
    by (rule connect_freeipa_cases [where be = be and w = w and cfg = cfg]) simp_all
  have tool: "case be (trace w) (ClientMeta server verify_ssl) of
            Inl e \<Rightarrow>
              freeipa_connect be server username password verify_ssl w =
                (error_outcome (msg_connect_failed @ str_exn e),
                 w\<lparr>freeipa_connected := False,
                   trace := trace w @ [ClientMeta server verify_ssl]\<rparr>)
          | Inr r \<Rightarrow>
              (\<exists>e. be (trace w @ [ClientMeta server verify_ssl])
                      (Login (new_handle w server verify_ssl) username password) = Inl e \<and>
                   freeipa_connect be server username password verify_ssl w =
                     (error_outcome (msg_connect_failed @ str_exn e),
                      w\<lparr>freeipa_client := Some (new_handle w server verify_ssl),
                        freeipa_connected := False,
                        trace := trace w @
                          [ClientMeta server verify_ssl,
                           Login (new_handle w server verify_ssl) username password]\<rparr>))"
    by (rule freeipa_connect_cases [where be = be and w = w and server = server
          and username = username and password = password and verify_ssl = verify_ssl])
       (use assms in simp_all)
  from tool internal show ?thesis by (rule conjI)
qed

theorem connect_failure_witness:
  "fst (freeipa_connect (failing_backend is_login) ''ipa.example.org'' ''admin'' ''wrong'' False
          initial_world) \<noteq> result_outcome (JStr (msg_connected @ ''ipa.example.org'')) \<and>
   freeipa_connect (failing_backend is_login) ''ipa.example.org'' ''admin'' ''wrong'' False
       initial_world =
     (error_outcome (msg_connect_failed @ ''refused''),
      \<lparr>freeipa_client = Some \<lparr>h_id = 0, h_server = ''ipa.example.org'', h_verify_ssl = False\<rparr>,
       freeipa_connected = False,
       trace = [ClientMeta ''ipa.example.org'' False,
                Login \<lparr>h_id = 0, h_server = ''ipa.example.org'', h_verify_ssl = False\<rparr>
                  ''admin'' ''wrong''],
       draws = 0\<rparr>) \<and>
   \<not> fst (connect_freeipa (failing_backend is_construction) example_config connected_world) \<and>
   connect_freeipa (failing_backend is_construction) example_config connected_world =
     (False,
      connected_world
        \<lparr>freeipa_connected := False,
          trace := trace connected_world @ [ClientMeta ''ipa.example.org'' False]\<rparr>)"
proof -
  have failed: "fst (freeipa_connect (failing_backend is_login) ''ipa.example.org'' ''admin''
      ''wrong'' False initial_world) \<noteq> result_outcome (JStr (msg_connected @ ''ipa.example.org''))"
    by (simp add: freeipa_connect_def construct_def invoke_def failing_backend_def
          initial_world_def)
  have built: "failing_backend is_login (trace initial_world)
      (ClientMeta ''ipa.example.org'' False) = Inr JNull"
    by (simp add: failing_backend_def)
  have refused: "failing_backend is_login (trace initial_world @ [ClientMeta ''ipa.example.org'' False])
      (Login (new_handle initial_world ''ipa.example.org'' False) ''admin'' ''wrong'') = Inl e \<longleftrightarrow>
      e = Exn ''refused''" for e
    by (auto simp: failing_backend_def)
  have tool: "freeipa_connect (failing_backend is_login) ''ipa.example.org'' ''admin'' ''wrong''
      False initial_world =
     (error_outcome (msg_connect_failed @ ''refused''),
      initial_world
        \<lparr>freeipa_client := Some (new_handle initial_world ''ipa.example.org'' False),
          freeipa_connected := False,
          trace := trace initial_world @
            [ClientMeta ''ipa.example.org'' False,
             Login (new_handle initial_world ''ipa.example.org'' False) ''admin'' ''wrong'']\<rparr>)"
    using connect_failure [OF failed, of example_config]
    unfolding built sum.case refused by auto
  have internal_failed:
    "\<not> fst (connect_freeipa (failing_backend is_construction) example_config connected_world)"
    by (simp add: connect_freeipa_def construct_def invoke_def failing_backend_def
          example_config_def)
  have unbuilt: "failing_backend is_construction (trace connected_world)
      (ClientMeta (FREEIPA_SERVER example_config) (FREEIPA_VERIFY_SSL example_config)) =
      Inl (Exn ''refused'')"
    by (simp add: failing_backend_def)
  have built': "failing_backend is_construction (trace connected_world)
      (ClientMeta ''ipa.example.org'' False) = Inl (Exn ''refused'')"
    by (simp add: failing_backend_def)
  have internal: "connect_freeipa (failing_backend is_construction) example_config connected_world =
     (False,
      connected_world
        \<lparr>freeipa_connected := False,
          trace := trace connected_world @
            [ClientMeta (FREEIPA_SERVER example_config) (FREEIPA_VERIFY_SSL example_config)]\<rparr>)"
  proof -
    have other: "fst (freeipa_connect (failing_backend is_construction) ''ipa.example.org''
        ''admin'' ''secret'' False connected_world) \<noteq>
        result_outcome (JStr (msg_connected @ ''ipa.example.org''))"
      by (simp add: freeipa_connect_def construct_def invoke_def failing_backend_def)
    from connect_failure [OF other, of example_config] internal_failed
    show ?thesis unfolding unbuilt built' sum.case by blast
  qed
  from failed tool internal_failed internal show ?thesis
    by (simp add: new_handle_def initial_world_def example_config_def)
qed

text \<open>
  The claim as stated fails when the login raises: the session then refers to the very handle
  the failed attempt constructed.
\<close>

theorem connect_keeps_attempted_handle:
  "fst (freeipa_connect (failing_backend is_login) ''ipa.example.org'' ''admin'' ''wrong'' False
          initial_world) = error_outcome (msg_connect_failed @ ''refused'') \<and>
   freeipa_client
     (snd (freeipa_connect (failing_backend is_login) ''ipa.example.org'' ''admin'' ''wrong''
             False initial_world)) =
     Some (new_handle initial_world ''ipa.example.org'' False)"
  by (simp add: freeipa_connect_def construct_def invoke_def failing_backend_def
        initial_world_def)

text \<open>
  Claim C5, as the code has it. \<open>freeipa_disconnect\<close> clears the handle and the flag, and
  reports success, exactly when no logout raises: there is no handle, or the logout returns.
  When the logout raises, the error is reported and the handle and the flag are left as
  they were.
\<close>

theorem disconnect_clears_unless_logout_raises:
  "if logout_raises be w
   then (\<exists>e. fst (freeipa_disconnect be w) = error_outcome (msg_disconnect_failed @ str_exn e)) \<and>
        freeipa_client (snd (freeipa_disconnect be w)) = freeipa_client w \<and>
        freeipa_connected (snd (freeipa_disconnect be w)) = freeipa_connected w
   else fst (freeipa_disconnect be w) = result_outcome (JStr msg_disconnected) \<and>
        freeipa_client (snd (freeipa_disconnect be w)) = None \<and>
        \<not> freeipa_connected (snd (freeipa_disconnect be w))"
  by (auto simp: logout_raises_def freeipa_disconnect_def invoke_def
        split: option.splits sum.splits)

theorem disconnect_clears_unless_logout_raises_witness:
  "\<not> logout_raises (failing_backend (\<lambda>c. False)) connected_world \<and>
   freeipa_client (snd (freeipa_disconnect (failing_backend (\<lambda>c. False)) connected_world)) = None \<and>
   \<not> freeipa_connected (snd (freeipa_disconnect (failing_backend (\<lambda>c. False)) connected_world)) \<and>
   logout_raises (failing_backend is_logout) connected_world \<and>
   fst (freeipa_disconnect (failing_backend is_logout) connected_world) =
     error_outcome (msg_disconnect_failed @ ''refused'')"
proof -
  have returns: "\<not> logout_raises (failing_backend (\<lambda>c. False)) connected_world"
    by (simp add: logout_raises_def failing_backend_def connected_world_def)
  have raises: "logout_raises (failing_backend is_logout) connected_world"
    by (simp add: logout_raises_def failing_backend_def connected_world_def)
  have reported: "fst (freeipa_disconnect (failing_backend is_logout) connected_world) =
     error_outcome (msg_disconnect_failed @ ''refused'')"
    by (simp add: freeipa_disconnect_def invoke_def failing_backend_def connected_world_def)
  from disconnect_clears_unless_logout_raises [of "failing_backend (\<lambda>c. False)" connected_world]
    returns raises reported
  show ?thesis by simp
qed

text \<open>
  The claim as stated fails when the logout raises: the handle stays and the flag stays set.
\<close>

theorem disconnect_blocked_by_logout_failure:
  "fst (freeipa_disconnect (failing_backend is_logout) connected_world) =
     error_outcome (msg_disconnect_failed @ ''refused'') \<and>
   freeipa_client (snd (freeipa_disconnect (failing_backend is_logout) connected_world)) =
     Some example_handle \<and>
   freeipa_connected (snd (freeipa_disconnect (failing_backend is_logout) connected_world))"
  by (simp add: freeipa_disconnect_def invoke_def failing_backend_def connected_world_def)


section \<open>The tools\<close>

lemma client_call_session [simp]:
  "freeipa_client (snd (client_call be w meth mk)) = freeipa_client w"
  "freeipa_connected (snd (client_call be w meth mk)) = freeipa_connected w"
  by (simp_all add: client_call_def invoke_def split: option.splits)

lemma generate_password_session [simp]:
  "freeipa_client (snd (generate_password rng w len)) = freeipa_client w"
  "freeipa_connected (snd (generate_password rng w len)) = freeipa_connected w"
  "trace (snd (generate_password rng w len)) = trace w"
  by (simp_all add: generate_password_def)

lemma session_inv_cong:
  "freeipa_client w' = freeipa_client w \<Longrightarrow> freeipa_connected w' = freeipa_connected w \<Longrightarrow>
     session_inv w' = session_inv w"
  by (simp add: session_inv_def)

lemma forgot_reset_password_session:
  "freeipa_client (snd (forgot_reset_password be rng cfg username phone new_password w)) =
     freeipa_client (snd (ensure_connection be cfg w)) \<and>
   freeipa_connected (snd (forgot_reset_password be rng cfg username phone new_password w)) =
     freeipa_connected (snd (ensure_connection be cfg w))"
  by (simp add: forgot_reset_password_def Let_def split_beta
        split: sum.splits bool.splits)

lemma directory_tool_session:
  assumes "directory_tool t"
  shows "freeipa_client (snd (run_tool be rng cfg t w)) =
           freeipa_client (snd (ensure_connection be cfg w)) \<and>
         freeipa_connected (snd (run_tool be rng cfg t w)) =
           freeipa_connected (snd (ensure_connection be cfg w))"
proof (cases t)
  case (Tool_forgot_reset_password username phone new_password)
  then show ?thesis by (simp add: forgot_reset_password_session)
qed (use assms in \<open>simp_all add: change_password_def user_list_def user_show_def user_add_def
       user_modify_def group_list_def group_show_def group_add_def group_add_member_def
       group_remove_member_def Let_def split_beta\<close>)

lemma freeipa_disconnect_inv:
  "session_inv w \<Longrightarrow> session_inv (snd (freeipa_disconnect be w))"
  by (auto simp: session_inv_def freeipa_disconnect_def invoke_def
        split: option.splits sum.splits)

lemma freeipa_status_inv:
  "session_inv w \<Longrightarrow> session_inv (snd (freeipa_status be w))"
  by (auto simp: session_inv_def freeipa_status_def invoke_def
        split: option.splits sum.splits)

lemma run_tool_inv: "session_inv w \<Longrightarrow> session_inv (snd (run_tool be rng cfg t w))"
proof (cases "directory_tool t")
  case True
  from directory_tool_session [OF True, of be rng cfg w]
  have "session_inv (snd (run_tool be rng cfg t w)) = session_inv (snd (ensure_connection be cfg w))"
    by (simp add: session_inv_def)
  then show ?thesis by (simp add: ensure_connection_inv)
next
  case False
  assume "session_inv w"
  with False show ?thesis
    by (cases t) (simp_all add: freeipa_connect_inv freeipa_disconnect_inv freeipa_status_inv)
qed

lemma step_inv: "session_inv w \<Longrightarrow> session_inv (step be rng cfg op w)"
  by (cases op) (simp_all add: run_tool_inv ensure_connection_inv connect_freeipa_inv)

lemma run_inv: "session_inv w \<Longrightarrow> session_inv (run be rng cfg ops w)"
  unfolding run_def by (induction ops arbitrary: w) (simp_all add: step_inv)

text \<open>
  Claim C10. In every state that any sequence of operations reaches from the initial state
  (no handle, flag false), under any backend, a set flag comes with a handle. The operations
  are the tools, the connection gate on its own and the connect of the startup hook.
\<close>

theorem session_invariant: "session_inv (run be rng cfg ops initial_world)"
  by (rule run_inv) (simp add: session_inv_def initial_world_def)

theorem session_invariant_witness:
  "freeipa_connected
     (run (failing_backend (\<lambda>c. False)) (\<lambda>i. i) example_config
        [Startup, Call_tool (Tool_user_list 100)] initial_world) \<and>
   freeipa_client
     (run (failing_backend (\<lambda>c. False)) (\<lambda>i. i) example_config
        [Startup, Call_tool (Tool_user_list 100)] initial_world) \<noteq> None"
proof -
  have "freeipa_connected
     (run (failing_backend (\<lambda>c. False)) (\<lambda>i. i) example_config
        [Startup, Call_tool (Tool_user_list 100)] initial_world)"
    by (simp add: run_def connect_freeipa_def construct_def invoke_def failing_backend_def
          initial_world_def user_list_def ensure_connection_def client_call_def Let_def)
  with session_invariant [of "failing_backend (\<lambda>c. False)" "\<lambda>i. i" example_config
         "[Startup, Call_tool (Tool_user_list 100)]"]
  show ?thesis by (simp add: session_inv_def)
qed


lemma result_xor_error_simps [simp]:
  "result_xor_error (result_outcome v)"
  "result_xor_error (error_outcome m)"
  "\<not> result_xor_error None"
  "result_xor_error (Some [(''result'', v), (''username'', u), (''new_password'', p)])"
  by (simp_all add: result_xor_error_def result_outcome_def error_outcome_def)

lemma reply_result_xor_error [simp]: "result_xor_error (reply failed d r)"
  by (simp add: reply_def split: sum.splits)

lemma forgot_reset_password_result_xor_error:
  "result_xor_error (fst (forgot_reset_password be rng cfg username phone new_password w))"
  by (simp add: forgot_reset_password_def Let_def split_beta
        split: sum.splits bool.splits)

lemma freeipa_status_result_xor_error:
  "session_inv w \<Longrightarrow> result_xor_error (fst (freeipa_status be w))"
  by (auto simp: session_inv_def freeipa_status_def invoke_def split: option.splits sum.splits)

lemma run_tool_result_xor_error:
  assumes "session_inv w"
  shows "result_xor_error (fst (run_tool be rng cfg t w))"
proof (cases t)
  case (Tool_freeipa_connect server username password verify_ssl)
  show ?thesis
    unfolding Tool_freeipa_connect run_tool.simps
    by (rule freeipa_connect_cases [where be = be and w = w and server = server
          and username = username and password = password and verify_ssl = verify_ssl])
       simp_all
next
  case Tool_freeipa_disconnect
  then show ?thesis
    by (simp add: freeipa_disconnect_def invoke_def split: option.splits sum.splits)
next
  case Tool_freeipa_status
  with assms show ?thesis by (simp add: freeipa_status_result_xor_error)
next
  case (Tool_forgot_reset_password username phone new_password)
  then show ?thesis by (simp add: forgot_reset_password_result_xor_error)
qed (simp_all add: change_password_def user_list_def user_show_def user_add_def
       user_modify_def group_list_def group_show_def group_add_def group_add_member_def
       group_remove_member_def Let_def split_beta)

text \<open>
  Claim C6. In every session state, that is, every state that a sequence of operations
  reaches from the initial state, every tool returns, whatever its arguments and whatever
  the backend answers, a dict with exactly one of the fields \<open>result\<close> and \<open>error\<close>: never
  both, never neither, and never nothing at all. The tool may be any of the fourteen; the
  operations before it are tool calls, runs of the connection gate and the startup connect.
\<close>

theorem tool_outcome_result_xor_error:
  "result_xor_error (fst (run_tool be rng cfg t (run be rng cfg ops initial_world)))"
proof -
  have "session_inv initial_world"
    by (simp add: session_inv_def initial_world_def)
  then have "session_inv (run be rng cfg ops initial_world)"
    by (rule run_inv)
  then show ?thesis
    by (rule run_tool_result_xor_error)
qed

theorem tool_outcome_result_xor_error_witness:
  "fst (run_tool (failing_backend (\<lambda>c. False)) (\<lambda>i. i) example_config Tool_freeipa_status
          (run (failing_backend (\<lambda>c. False)) (\<lambda>i. i) example_config [Startup] initial_world)) =
     Some [(''result'', JNull)] \<and>
   result_xor_error
     (fst (run_tool (failing_backend (\<lambda>c. False)) (\<lambda>i. i) example_config Tool_freeipa_status
             (run (failing_backend (\<lambda>c. False)) (\<lambda>i. i) example_config [Startup]
                initial_world))) \<and>
   fst (run_tool (failing_backend (\<lambda>c. False)) (\<lambda>i. i) example_config Tool_freeipa_status
          (run (failing_backend (\<lambda>c. False)) (\<lambda>i. i) example_config [] initial_world)) =
     Some [(''error'', JStr msg_not_connected)] \<and>
   result_xor_error
     (fst (run_tool (failing_backend (\<lambda>c. False)) (\<lambda>i. i) example_config Tool_freeipa_status
             (run (failing_backend (\<lambda>c. False)) (\<lambda>i. i) example_config [] initial_world)))"
proof -
  have connected: "fst (run_tool (failing_backend (\<lambda>c. False)) (\<lambda>i. i) example_config
      Tool_freeipa_status
      (run (failing_backend (\<lambda>c. False)) (\<lambda>i. i) example_config [Startup] initial_world)) =
     Some [(''result'', JNull)]"
    by (simp add: run_def connect_freeipa_def construct_def invoke_def failing_backend_def
          initial_world_def freeipa_status_def safe_json_serialize.simps result_outcome_def)
  have idle: "fst (run_tool (failing_backend (\<lambda>c. False)) (\<lambda>i. i) example_config
      Tool_freeipa_status
      (run (failing_backend (\<lambda>c. False)) (\<lambda>i. i) example_config [] initial_world)) =
     Some [(''error'', JStr msg_not_connected)]"
    by (simp add: run_def initial_world_def freeipa_status_def error_outcome_def)
  from connected idle
    tool_outcome_result_xor_error [of "failing_backend (\<lambda>c. False)" "\<lambda>i. i" example_config
      Tool_freeipa_status "[Startup]"]
    tool_outcome_result_xor_error [of "failing_backend (\<lambda>c. False)" "\<lambda>i. i" example_config
      Tool_freeipa_status "[]"]
  show ?thesis by blast
qed

text \<open>
  Claim C7. When the connection gate fails, every directory tool returns the not-connected
  error (the literal of the source, \<open>msg_not_connected\<close>) and leaves the world as the gate
  left it: after the gate the tool calls nothing, and the gate itself only constructs, logs
  in and pings, so the directory has received no call.
\<close>

theorem not_connected_short_circuit:
  assumes "directory_tool t" and "\<not> fst (ensure_connection be cfg w)"
  shows "run_tool be rng cfg t w =
           (error_outcome msg_not_connected, snd (ensure_connection be cfg w)) \<and>
         filter directory_call (trace (snd (run_tool be rng cfg t w))) =
           filter directory_call (trace w)"
proof -
  from assms have "run_tool be rng cfg t w =
      (error_outcome msg_not_connected, snd (ensure_connection be cfg w))"
    by (cases t)
       (simp_all add: change_password_def forgot_reset_password_def user_list_def user_show_def
          user_add_def user_modify_def group_list_def group_show_def group_add_def
          group_add_member_def group_remove_member_def Let_def split_beta)
  then show ?thesis by (simp add: ensure_connection_directory_calls)
qed

theorem not_connected_short_circuit_witness:
  "directory_tool (Tool_user_list 100) \<and>
   \<not> fst (ensure_connection (failing_backend is_construction) example_config initial_world) \<and>
   fst (run_tool (failing_backend is_construction) (\<lambda>i. i) example_config (Tool_user_list 100)
          initial_world) = error_outcome msg_not_connected \<and>
   filter directory_call
     (trace (snd (run_tool (failing_backend is_construction) (\<lambda>i. i) example_config
                    (Tool_user_list 100) initial_world))) = []"
proof -
  have tool: "directory_tool (Tool_user_list 100)" by simp
  have gate: "\<not> fst (ensure_connection (failing_backend is_construction) example_config
      initial_world)"
    by (simp add: ensure_connection_def connect_freeipa_def construct_def invoke_def
          failing_backend_def initial_world_def)
  from not_connected_short_circuit [OF tool gate, of "\<lambda>i. i"] tool gate
  show ?thesis by (simp add: ensure_connection_directory_calls) (simp add: initial_world_def)
qed


section \<open>The credential reset\<close>

lemma normalize_phones_strings:
  "normalize_phones (map JStr phones) = Inr (map normalize_phone phones)"
  by (induction phones) simp_all

text \<open>
  Claim C8. Let the gate succeed and the lookup of the account return a payload whose
  \<open>result\<close> carries the list \<open>phones\<close> of registered numbers (or no \<open>telephonenumber\<close> at all,
  which reads as the empty list). If the list is empty, or the normalized number of the caller
  is not among the normalized registered numbers, \<open>forgot_reset_password\<close> returns the
  verification error (the literal of the source, \<open>msg_phone_not_verified\<close>), and what it has
  called after the gate is the lookup alone: no \<open>user_mod\<close>, no \<open>change_password\<close>, and no
  password is drawn. Over the whole invocation, the gate's ping and login included, the
  directory has received exactly one call, the lookup.
\<close>

theorem phone_not_verified:
  assumes gate: "ensure_connection be cfg w = (True, w1)"
    and handle: "freeipa_client w1 = Some h"
    and lookup: "be (trace w1) (User_show h username) = Inr user_info"
    and result: "py_get user_info ''result'' (JDict []) = Inr r"
    and stored: "py_get r ''telephonenumber'' (JList []) = Inr (JList (map JStr phones))"
    and mismatch: "phones = [] \<or> normalize_phone phone \<notin> set (map normalize_phone phones)"
  shows "forgot_reset_password be rng cfg username phone new_password w =
           (error_outcome msg_phone_not_verified, w1\<lparr>trace := trace w1 @ [User_show h username]\<rparr>) \<and>
         filter directory_call
           (trace (snd (forgot_reset_password be rng cfg username phone new_password w))) =
           filter directory_call (trace w) @ [User_show h username]"
proof -
  from result stored mismatch have "phone_rejected user_info phone = Inr True"
    by (auto simp: phone_rejected_def normalize_phones_strings)
  with gate handle lookup
  have "forgot_reset_password be rng cfg username phone new_password w =
      (error_outcome msg_phone_not_verified, w1\<lparr>trace := trace w1 @ [User_show h username]\<rparr>)"
    by (simp add: forgot_reset_password_def client_call_def invoke_def)
  moreover from gate ensure_connection_directory_calls [of be cfg w]
  have "filter directory_call (trace w1) = filter directory_call (trace w)"
    by simp
  ultimately show ?thesis by simp
qed

theorem phone_not_verified_witness:
  "ensure_connection alice_backend example_config connected_world =
     (True, connected_world\<lparr>trace := trace connected_world @ [Ping example_handle]\<rparr>) \<and>
   normalize_phone ''+905550000000'' \<notin> set (map normalize_phone [''+90 555 123 45 67'']) \<and>
   forgot_reset_password alice_backend (\<lambda>i. i) example_config ''alice'' ''+905550000000'' []
       connected_world =
     (error_outcome msg_phone_not_verified,
      connected_world\<lparr>trace := trace connected_world @
                                  [Ping example_handle, User_show example_handle ''alice'']\<rparr>)"
proof -
  let ?w1 = "connected_world\<lparr>trace := trace connected_world @ [Ping example_handle]\<rparr>"
  have gate: "ensure_connection alice_backend example_config connected_world = (True, ?w1)"
    by (simp add: ensure_connection_def client_call_def invoke_def connected_world_def)
  have handle: "freeipa_client ?w1 = Some example_handle"
    by (simp add: connected_world_def)
  have lookup: "alice_backend (trace ?w1) (User_show example_handle ''alice'') = Inr alice_info"
    by simp
  have result: "py_get alice_info ''result'' (JDict []) =
      Inr (JDict [(''uid'', JList [JStr ''alice'']),
                  (''telephonenumber'', JList [JStr ''+90 555 123 45 67''])])"
    by (simp add: alice_info_def)
  have stored: "py_get (JDict [(''uid'', JList [JStr ''alice'']),
                  (''telephonenumber'', JList [JStr ''+90 555 123 45 67''])])
      ''telephonenumber'' (JList []) = Inr (JList (map JStr [''+90 555 123 45 67'']))"
    by simp
  have given: "normalize_phone ''+905550000000'' = ''555000000''"
    by (simp add: normalize_phone_def py_replace.simps)
  have kept: "normalize_phone ''+90 555 123 45 67'' = ''5551234567''"
    by (simp add: normalize_phone_def py_replace.simps)
  have mismatch: "[''+90 555 123 45 67''] = [] \<or>
      normalize_phone ''+905550000000'' \<notin> set (map normalize_phone [''+90 555 123 45 67''])"
    by (simp add: given kept)
  from phone_not_verified [OF gate handle lookup result stored mismatch, of "\<lambda>i. i" "[]"]
    gate mismatch
  show ?thesis by simp
qed


section \<open>Phone numbers\<close>

lemma py_replace_char_all:
  "count < 0 \<Longrightarrow> py_replace s [c] [] count = filter (\<lambda>x. x \<noteq> c) s"
proof (induction s arbitrary: count)
  case Nil
  then show ?case by (simp add: py_replace.simps [of "[]"])
next
  case (Cons x xs)
  from Cons.prems have "count - 1 < 0" by simp
  with Cons.IH Cons.prems show ?case
    by (simp add: py_replace.simps [of "x # xs"])
qed

lemma py_replace_char_first: "py_replace s [c] [] 1 = remove1 c s"
proof (induction s)
  case Nil
  then show ?case by (simp add: py_replace.simps [of "[]"])
next
  case (Cons x xs)
  have "py_replace xs [c] [] 0 = xs" by (simp add: py_replace.simps [of xs])
  with Cons show ?case
    by (auto simp: py_replace.simps [of "x # xs"])
qed

lemma py_replace_country_code:
  "count < 0 \<Longrightarrow> py_replace s ''+90'' [] count = delete_country_code s"
proof (induction s arbitrary: count rule: delete_country_code.induct)
  case 1
  then show ?case by (simp add: py_replace.simps [of "[]"])
next
  case (2 c cs)
  from "2.prems" have neg: "count - 1 < 0" by simp
  from "2.prems" have unfolded: "py_replace (c # cs) ''+90'' [] count =
      (if take 3 (c # cs) = ''+90'' then py_replace (drop 2 cs) ''+90'' [] (count - 1)
       else c # py_replace cs ''+90'' [] count)"
    by (subst py_replace.simps) (simp add: numeral_2_eq_2)
  show ?case
  proof (cases "take 3 (c # cs) = ''+90''")
    case True
    have "py_replace (c # cs) ''+90'' [] count = py_replace (drop 2 cs) ''+90'' [] (count - 1)"
      unfolding unfolded using True by (rule if_P)
    also have "\<dots> = delete_country_code (drop 2 cs)"
      by (rule "2.IH"(1) [OF True neg])
    also have "\<dots> = delete_country_code (c # cs)"
      unfolding delete_country_code.simps using True by (rule if_P [symmetric])
    finally show ?thesis .
  next
    case False
    have "py_replace (c # cs) ''+90'' [] count = c # py_replace cs ''+90'' [] count"
      unfolding unfolded using False by (rule if_not_P)
    also have "\<dots> = c # delete_country_code cs"
      by (simp only: "2.IH"(2) [OF False "2.prems"])
    also have "\<dots> = delete_country_code (c # cs)"
      unfolding delete_country_code.simps using False by (rule if_not_P [symmetric])
    finally show ?thesis .
  qed
qed

text \<open>
  Claim C9, as the code has it. The normalization deletes every occurrence of \<open>+90\<close>, found
  from the left and wherever it stands, then the first \<open>0\<close> of what is left, wherever it
  stands, then every space and every hyphen; it removes nothing else.
\<close>

theorem normalize_phone_characterisation:
  "normalize_phone phone =
     filter (\<lambda>c. c \<noteq> CHR '' '' \<and> c \<noteq> CHR ''-'')
       (remove1 CHR ''0'' (delete_country_code phone))"
proof -
  have "filter (\<lambda>x. x \<noteq> CHR ''-'') (filter (\<lambda>x. x \<noteq> CHR '' '') s) =
      filter (\<lambda>c. c \<noteq> CHR '' '' \<and> c \<noteq> CHR ''-'') s" for s :: string
    by (induction s) simp_all
  then show ?thesis
    by (simp add: normalize_phone_def py_replace_char_all py_replace_char_first
          py_replace_country_code)
qed

text \<open>
  The claim as stated fails: a \<open>0\<close> that is not the leading digit is removed when it is the
  first one, and a \<open>+90\<close> that is not a prefix is removed.
\<close>

theorem normalize_phone_removes_inner_zero:
  "normalize_phone ''5550123'' = ''555123'' \<and>
   normalize_phone_as_specified ''5550123'' = ''5550123'' \<and>
   normalize_phone ''5+90551'' = ''5551'' \<and>
   normalize_phone_as_specified ''5+90551'' = ''5+90551''"
  by (simp add: normalize_phone_def normalize_phone_as_specified_def strip_prefix_str_def
        py_replace.simps)


section \<open>The normalizer on dicts\<close>

lemma try_store_printable:
  "str_key key = Inr k \<Longrightarrow> \<exists>result'. try_store key r result = Inr result'"
  by (cases r) (simp_all add: try_store_def assign_def)

lemma normalizer_returns:
  "keys_printable h \<Longrightarrow> \<exists>v. safe_json_serialize h obj max_depth current_depth = Inr v"
  "keys_printable h \<Longrightarrow> \<exists>vs. serialize_items h items max_depth current_depth = Inr vs"
  "keys_printable h \<Longrightarrow> \<forall>key \<in> fst ` set entries. \<exists>k. str_key key = Inr k \<Longrightarrow>
     \<exists>result'. serialize_entries h entries max_depth current_depth result = Inr result'"
proof (induction h obj max_depth current_depth and h items max_depth current_depth
         and h entries max_depth current_depth result
       rule: safe_json_serialize_serialize_items_serialize_entries.induct)
  case (1 h obj max_depth current_depth)
  note printable = \<open>keys_printable h\<close>
  show ?case
  proof (cases "max_depth < current_depth")
    case True
    then show ?thesis by (simp add: safe_json_serialize.simps)
  next
    case False
    show ?thesis
    proof (cases "h obj")
      case (PList items)
      with False "1.IH"(1) [OF False PList printable] show ?thesis
        by (auto simp: safe_json_serialize.simps [of h obj])
    next
      case (PTuple items)
      with False "1.IH"(2) [OF False PTuple printable] show ?thesis
        by (auto simp: safe_json_serialize.simps [of h obj])
    next
      case (PDict entries)
      from printable PDict have "\<forall>key \<in> fst ` set entries. \<exists>k. str_key key = Inr k"
        unfolding keys_printable_def by blast
      with False PDict "1.IH"(3) [OF False PDict printable] show ?thesis
        by (auto simp: safe_json_serialize.simps [of h obj])
    next
      case (PObject r)
      with False show ?thesis
        by (cases r) (simp_all add: safe_json_serialize.simps [of h obj])
    qed (use False in \<open>simp_all add: safe_json_serialize.simps [of h obj]\<close>)
  qed
next
  case (2 h max_depth current_depth)
  show ?case by simp
next
  case (3 h item items max_depth current_depth)
  note printable = \<open>keys_printable h\<close>
  from "3.IH"(1) [OF printable]
  obtain v where v: "safe_json_serialize h item max_depth (current_depth + 1) = Inr v"
    by blast
  from "3.IH"(2) [OF v printable]
  obtain vs where "serialize_items h items max_depth current_depth = Inr vs"
    by blast
  with v show ?case by simp
next
  case (4 h max_depth current_depth result)
  show ?case by simp
next
  case (5 h key val entries max_depth current_depth result)
  note printable = \<open>keys_printable h\<close>
  from "5.prems"(2) obtain k where "str_key key = Inr k" by auto
  then obtain result' where stored:
    "try_store key (safe_json_serialize h val max_depth (current_depth + 1)) result = Inr result'"
    using try_store_printable by blast
  from "5.prems"(2) have "\<forall>key \<in> fst ` set entries. \<exists>k. str_key key = Inr k" by simp
  from "5.IH"(2) [OF stored printable this] stored show ?case by simp
qed

lemma payload_keys_printable: "keys_printable py_object"
  unfolding keys_printable_def
proof (intro allI impI)
  fix a :: json and entries key
  assume "py_object a = PDict entries" and "key \<in> fst ` set entries"
  then show "\<exists>k. str_key key = Inr k"
    by (cases a) auto
qed

lemma self_list_terminates:
  "safe_json_serialize self_list () 2 0 =
     Inr (JList [JList [JList [JStr ''[Max Depth Exceeded]'']]])"
  by (simp add: safe_json_serialize.simps self_list_def)

text \<open>
  Claim C2. The normalizer is a total function of the model, on cyclic graphs too, since every
  recursive call is one level deeper and the depth is bounded; and it returns a value whenever
  every dict key has a string form (\<open>normalizer_returns\<close>). It does raise on a dict with a key
  whose \<open>__str__\<close> raises: the assignment in the \<open>try\<close> fails in \<open>str(key)\<close>, and the handler
  evaluates \<open>str(key)\<close> again, outside any \<open>try\<close>.
\<close>

theorem normalizer_raises_on_unprintable_key:
  "safe_json_serialize bad_key_dict 0 10 0 = Inl (Exn ''__str__ failed'')"
  by (simp add: safe_json_serialize.simps bad_key_dict_def try_store_def assign_def)

end
